theory Spec2Isabelle
  imports Complex_Main
begin

section \<open>Core types (core/interfaces/game.types.ts)\<close>

text \<open>
  Grid coordinates are JavaScript numbers that only ever hold integers here; they are
  modelled as unbounded \<open>int\<close>. The fields \<open>x\<close> and \<open>y\<close> of the source are called
  \<open>pos_x\<close> and \<open>pos_y\<close>, so that \<open>x\<close> and \<open>y\<close> stay free for loop variables.
\<close>

record Position =
  pos_x :: int
  pos_y :: int

datatype Direction = UP | DOWN | LEFT | RIGHT

datatype GameState = MENU | PLAYING | PAUSED | GAME_OVER | SETTINGS

datatype FoodType = REGULAR | SPECIAL

record SnakeSegment =
  position :: Position
  isHead :: bool

record GameConfig =
  gridSize :: int
  gameSpeed :: real
  initialSnakeLength :: int
  snakeColor :: string
  foodColor :: string
  backgroundColor :: string
  specialFoodColor :: string
  specialFoodSpawnChance :: real

record ScoreData =
  sd_currentScore :: int
  sd_highScore :: int
  sd_snakeLength :: int
  sd_foodEaten :: int
  sd_gameTime :: int

text \<open>
  A method call either returns or throws. A throw leaves the object in the state it had
  when the exception was raised, so both outcomes carry the state.
\<close>

datatype error = TypeError | SpawnError

datatype 'a outcome = Returned 'a | Thrown error 'a

fun state_of :: "'a outcome \<Rightarrow> 'a" where
  "state_of (Returned s) = s"
| "state_of (Thrown e s) = s"

fun has_thrown :: "'a outcome \<Rightarrow> bool" where
  "has_thrown (Returned s) = False"
| "has_thrown (Thrown e s) = True"

section \<open>Position (core/entities/position.ts)\<close>

definition equals :: "Position \<Rightarrow> Position \<Rightarrow> bool" where
  "equals this other \<longleftrightarrow> pos_x this = pos_x other \<and> pos_y this = pos_y other"

section \<open>Snake (core/entities/snake.ts)\<close>

record Snake =
  snake_config :: GameConfig
  segments :: "SnakeSegment list"
  direction :: Direction
  nextDirection :: Direction

text \<open>The \<open>for\<close> loop of \<open>initializeSnake\<close>, with \<open>push\<close> appending at the end.\<close>

function initializeSnake_loop ::
  "int \<Rightarrow> int \<Rightarrow> int \<Rightarrow> int \<Rightarrow> SnakeSegment list \<Rightarrow> SnakeSegment list" where
  "initializeSnake_loop n centerX centerY i segs =
     (if i < n
      then initializeSnake_loop n centerX centerY (i + 1)
             (segs @ [\<lparr>position = \<lparr>pos_x = centerX - i, pos_y = centerY\<rparr>, isHead = (i = 0)\<rparr>])
      else segs)"
  by pat_completeness auto
termination
  by (relation "measure (\<lambda>(n, cx, cy, i, segs). nat (n - i))") auto

declare initializeSnake_loop.simps [simp del]

definition initializeSnake :: "Snake \<Rightarrow> Snake" where
  "initializeSnake this =
     (let centerX = gridSize (snake_config this) div 2;
          centerY = gridSize (snake_config this) div 2
      in this\<lparr>segments :=
           initializeSnake_loop (initialSnakeLength (snake_config this)) centerX centerY 0 []\<rparr>)"

definition new_Snake :: "GameConfig \<Rightarrow> Snake" where
  "new_Snake cfg =
     initializeSnake \<lparr>snake_config = cfg, segments = [], direction = RIGHT, nextDirection = RIGHT\<rparr>"

fun calculateNewHeadPosition :: "Direction \<Rightarrow> Position \<Rightarrow> Position" where
  "calculateNewHeadPosition UP currentPosition =
     \<lparr>pos_x = pos_x currentPosition, pos_y = pos_y currentPosition - 1\<rparr>"
| "calculateNewHeadPosition DOWN currentPosition =
     \<lparr>pos_x = pos_x currentPosition, pos_y = pos_y currentPosition + 1\<rparr>"
| "calculateNewHeadPosition LEFT currentPosition =
     \<lparr>pos_x = pos_x currentPosition - 1, pos_y = pos_y currentPosition\<rparr>"
| "calculateNewHeadPosition RIGHT currentPosition =
     \<lparr>pos_x = pos_x currentPosition + 1, pos_y = pos_y currentPosition\<rparr>"

text \<open>
  \<open>move\<close>: the direction is assigned first; reading \<open>head.position\<close> of an empty
  segment array throws a TypeError before anything else changes. \<open>unshift\<close> is
  \<open>#\<close>, \<open>pop\<close> is \<open>butlast\<close>.
\<close>

definition move :: "Snake \<Rightarrow> Snake outcome" where
  "move this =
     (let this1 = this\<lparr>direction := nextDirection this\<rparr>
      in case segments this1 of
           [] \<Rightarrow> Thrown TypeError this1
         | head # rest \<Rightarrow>
             let newHeadPosition = calculateNewHeadPosition (direction this1) (position head);
                 segs1 = \<lparr>position = newHeadPosition, isHead = True\<rparr> # segments this1;
                 segs2 = butlast segs1;
                 segs3 = (if length segs2 > 1
                          then segs2[1 := (segs2 ! 1)\<lparr>isHead := False\<rparr>]
                          else segs2)
             in Returned (this1\<lparr>segments := segs3\<rparr>))"

fun opposites :: "Direction \<Rightarrow> Direction" where
  "opposites UP = DOWN"
| "opposites DOWN = UP"
| "opposites LEFT = RIGHT"
| "opposites RIGHT = LEFT"

definition isOppositeDirection :: "Snake \<Rightarrow> Direction \<Rightarrow> bool" where
  "isOppositeDirection this d \<longleftrightarrow> opposites (direction this) = d"

definition changeDirection :: "Direction \<Rightarrow> Snake \<Rightarrow> Snake" where
  "changeDirection newDirection this =
     (if isOppositeDirection this newDirection then this
      else this\<lparr>nextDirection := newDirection\<rparr>)"

text \<open>\<open>grow\<close>: reading \<open>tail.position\<close> of an empty segment array throws.\<close>

definition grow :: "Snake \<Rightarrow> Snake outcome" where
  "grow this =
     (if segments this = [] then Thrown TypeError this
      else let tail = last (segments this)
           in Returned (this\<lparr>segments := segments this @
                [\<lparr>position = \<lparr>pos_x = pos_x (position tail), pos_y = pos_y (position tail)\<rparr>,
                  isHead = False\<rparr>]\<rparr>))"

text \<open>
  \<open>hasSelfCollision\<close>: on an empty array \<open>slice(1)\<close> is empty and \<open>some\<close> never
  calls its callback, so the undefined head is never dereferenced and the result is false.
\<close>

definition hasSelfCollision :: "Snake \<Rightarrow> bool" where
  "hasSelfCollision this =
     (case segments this of
        [] \<Rightarrow> False
      | head # rest \<Rightarrow> list_ex (\<lambda>segment. equals (position segment) (position head)) rest)"

text \<open>\<open>getHeadPosition\<close>: \<open>None\<close> stands for the TypeError on an empty array.\<close>

definition getHeadPosition :: "Snake \<Rightarrow> Position option" where
  "getHeadPosition this = (case segments this of [] \<Rightarrow> None | head # rest \<Rightarrow> Some (position head))"

definition getSegments :: "Snake \<Rightarrow> SnakeSegment list" where
  "getSegments this =
     map (\<lambda>segment. \<lparr>position = position segment, isHead = isHead segment\<rparr>) (segments this)"

definition getLength :: "Snake \<Rightarrow> int" where
  "getLength this = int (length (segments this))"

definition snake_reset :: "Snake \<Rightarrow> Snake" where
  "snake_reset this = initializeSnake (this\<lparr>direction := RIGHT, nextDirection := RIGHT\<rparr>)"

definition containsPosition :: "Snake \<Rightarrow> Position \<Rightarrow> bool" where
  "containsPosition this p = list_ex (\<lambda>segment. equals (position segment) p) (segments this)"

text \<open>
  A caller's sequence of calls on one snake. A call that throws leaves the snake as it
  was at the throw, and the sequence goes on from there.
\<close>

datatype SnakeOp = Move | Grow | Reset | ChangeDirection Direction

fun apply_SnakeOp :: "SnakeOp \<Rightarrow> Snake \<Rightarrow> Snake" where
  "apply_SnakeOp Move s = state_of (move s)"
| "apply_SnakeOp Grow s = state_of (grow s)"
| "apply_SnakeOp Reset s = snake_reset s"
| "apply_SnakeOp (ChangeDirection d) s = changeDirection d s"

fun run_SnakeOps :: "SnakeOp list \<Rightarrow> Snake \<Rightarrow> Snake" where
  "run_SnakeOps [] s = s"
| "run_SnakeOps (op # ops) s = run_SnakeOps ops (apply_SnakeOp op s)"

text \<open>The unit offsets of the four directions, as the specification lists them.\<close>

fun unit_offset :: "Direction \<Rightarrow> int \<times> int" where
  "unit_offset UP = (0, -1)"
| "unit_offset DOWN = (0, 1)"
| "unit_offset LEFT = (-1, 0)"
| "unit_offset RIGHT = (1, 0)"

text \<open>Only the first segment is flagged as head.\<close>

fun only_first_isHead :: "SnakeSegment list \<Rightarrow> bool" where
  "only_first_isHead [] = True"
| "only_first_isHead (s # rest) = (isHead s \<and> list_all (\<lambda>t. \<not> isHead t) rest)"

definition example_config :: GameConfig where
  "example_config =
     \<lparr>gridSize = 10, gameSpeed = 100, initialSnakeLength = 3, snakeColor = ''#4CAF50'',
      foodColor = ''#F44336'', backgroundColor = ''#000'', specialFoodColor = ''#FF9800'',
      specialFoodSpawnChance = 1 / 10\<rparr>"


section \<open>Storage (core/services/storage.ts)\<close>

text \<open>
  The browser's \<open>localStorage\<close> holds JSON text; the two shapes the score manager
  writes are modelled as values. Every access is wrapped in \<open>try\<close>/\<open>catch\<close>: when
  the store is unavailable a read yields \<open>null\<close> and a write is dropped.
\<close>

datatype StoredValue =
    StoredNumber int
  | StoredStats int string int

record Storage =
  prefix :: string
  items :: "string \<rightharpoonup> StoredValue"
  available :: bool

definition storage_get :: "Storage \<Rightarrow> string \<Rightarrow> StoredValue option" where
  "storage_get this key = (if available this then items this (prefix this @ key) else None)"

definition storage_set :: "string \<Rightarrow> StoredValue \<Rightarrow> Storage \<Rightarrow> Storage" where
  "storage_set key v this =
     (if available this then this\<lparr>items := (items this)(prefix this @ key \<mapsto> v)\<rparr> else this)"

section \<open>ScoreManager (core/services/score-manager.ts)\<close>

text \<open>
  Scores and counters are integer-valued JavaScript numbers, modelled as \<open>int\<close>;
  readings of \<open>performance.now()\<close> are \<open>real\<close> and are passed in by the caller.
\<close>

record ScoreManager =
  currentScore :: int
  highScore :: int
  snakeLength :: int
  foodEaten :: int
  gameTime :: int
  gameStartTime :: real
  storage :: Storage

definition HIGH_SCORE_KEY :: string where
  "HIGH_SCORE_KEY = ''high-score''"

definition STATS_KEY :: string where
  "STATS_KEY = ''game-stats''"

definition updateHighScore :: "ScoreManager \<Rightarrow> ScoreManager" where
  "updateHighScore this =
     (if currentScore this > highScore this then this\<lparr>highScore := currentScore this\<rparr> else this)"

definition addPoints :: "int \<Rightarrow> ScoreManager \<Rightarrow> ScoreManager" where
  "addPoints pts this = updateHighScore (this\<lparr>currentScore := currentScore this + pts\<rparr>)"

definition getCurrentScore :: "ScoreManager \<Rightarrow> int" where
  "getCurrentScore this = currentScore this"

definition getHighScore :: "ScoreManager \<Rightarrow> int" where
  "getHighScore this = highScore this"

definition getScore :: "ScoreManager \<Rightarrow> ScoreData" where
  "getScore this =
     \<lparr>sd_currentScore = currentScore this, sd_highScore = highScore this,
      sd_snakeLength = snakeLength this, sd_foodEaten = foodEaten this,
      sd_gameTime = gameTime this\<rparr>"

definition getTotalGames :: "ScoreManager \<Rightarrow> int" where
  "getTotalGames this =
     (case storage_get (storage this) STATS_KEY of
        Some (StoredStats h l n) \<Rightarrow> n
      | _ \<Rightarrow> 0)"

text \<open>\<open>lastPlayed\<close> is the text of \<open>new Date().toISOString()\<close>, given by the caller.\<close>

definition saveGameStats :: "string \<Rightarrow> ScoreManager \<Rightarrow> ScoreManager" where
  "saveGameStats lastPlayed this =
     this\<lparr>storage :=
       storage_set STATS_KEY (StoredStats (highScore this) lastPlayed (getTotalGames this + 1))
         (storage this)\<rparr>"

definition saveHighScore :: "string \<Rightarrow> ScoreManager \<Rightarrow> ScoreManager" where
  "saveHighScore lastPlayed this =
     saveGameStats lastPlayed
       (this\<lparr>storage := storage_set HIGH_SCORE_KEY (StoredNumber (highScore this)) (storage this)\<rparr>)"

definition resetScore :: "ScoreManager \<Rightarrow> ScoreManager" where
  "resetScore this =
     this\<lparr>currentScore := 0, snakeLength := 3, foodEaten := 0, gameTime := 0, gameStartTime := 0\<rparr>"

definition incrementFoodEaten :: "ScoreManager \<Rightarrow> ScoreManager" where
  "incrementFoodEaten this = this\<lparr>foodEaten := foodEaten this + 1\<rparr>"

definition updateGameTime :: "int \<Rightarrow> ScoreManager \<Rightarrow> ScoreManager" where
  "updateGameTime t this = this\<lparr>gameTime := t\<rparr>"

definition startGameTimer :: "real \<Rightarrow> ScoreManager \<Rightarrow> ScoreManager" where
  "startGameTimer now this = this\<lparr>gameStartTime := now\<rparr>"

definition updateTimer :: "real \<Rightarrow> ScoreManager \<Rightarrow> ScoreManager" where
  "updateTimer now this =
     (if gameStartTime this > 0
      then this\<lparr>gameTime := \<lfloor>(now - gameStartTime this) / 1000\<rfloor>\<rparr>
      else this)"

definition updateSnakeLength :: "int \<Rightarrow> ScoreManager \<Rightarrow> ScoreManager" where
  "updateSnakeLength len this = this\<lparr>snakeLength := len\<rparr>"

definition loadHighScore :: "ScoreManager \<Rightarrow> ScoreManager" where
  "loadHighScore this =
     (case storage_get (storage this) HIGH_SCORE_KEY of
        Some (StoredNumber savedHighScore) \<Rightarrow>
          (if savedHighScore > highScore this then this\<lparr>highScore := savedHighScore\<rparr> else this)
      | _ \<Rightarrow> this)"

definition new_ScoreManager :: "Storage \<Rightarrow> ScoreManager" where
  "new_ScoreManager st =
     loadHighScore
       \<lparr>currentScore = 0, highScore = 0, snakeLength = 3, foodEaten = 0, gameTime = 0,
        gameStartTime = 0, storage = st\<rparr>"

section \<open>GameBoard (core/entities/game-board.ts)\<close>

record GameBoard =
  board_gridSize :: int

definition isOutOfBounds :: "GameBoard \<Rightarrow> Position \<Rightarrow> bool" where
  "isOutOfBounds this p \<longleftrightarrow>
     pos_x p < 0 \<or> pos_x p \<ge> board_gridSize this \<or> pos_y p < 0 \<or> pos_y p \<ge> board_gridSize this"

definition isValidPosition :: "GameBoard \<Rightarrow> Position \<Rightarrow> bool" where
  "isValidPosition this p \<longleftrightarrow> \<not> isOutOfBounds this p"

text \<open>
  The template string \<open>`${x},${y}`\<close>: an integer-valued number prints in decimal, with a
  leading \<open>-\<close> when negative (magnitudes below \<open>10\<^sup>2\<^sup>1\<close>, where JavaScript switches to
  exponent notation, which no grid reaches).
\<close>

definition digit_char :: "nat \<Rightarrow> char" where
  "digit_char d = ''0123456789'' ! (d mod 10)"

function string_of_nat :: "nat \<Rightarrow> string" where
  "string_of_nat n =
     (if n < 10 then [digit_char n] else string_of_nat (n div 10) @ [digit_char (n mod 10)])"
  by pat_completeness auto
termination
  by (relation "measure id") auto

declare string_of_nat.simps [simp del]

definition number_toString :: "int \<Rightarrow> string" where
  "number_toString i = (if i < 0 then CHR ''-'' # string_of_nat (nat (- i)) else string_of_nat (nat i))"

definition positionKey :: "int \<Rightarrow> int \<Rightarrow> string" where
  "positionKey x y = number_toString x @ '','' @ number_toString y"

text \<open>The two nested \<open>for\<close> loops of \<open>getEmptyPositionsExcludingSnake\<close>, inner loop first.\<close>

function emptyPositions_loop_y ::
  "int \<Rightarrow> string set \<Rightarrow> int \<Rightarrow> int \<Rightarrow> Position list \<Rightarrow> Position list" where
  "emptyPositions_loop_y n snakePositions x y emptyPositions =
     (if y < n
      then emptyPositions_loop_y n snakePositions x (y + 1)
             (if positionKey x y \<notin> snakePositions
              then emptyPositions @ [\<lparr>pos_x = x, pos_y = y\<rparr>]
              else emptyPositions)
      else emptyPositions)"
  by pat_completeness auto
termination
  by (relation "measure (\<lambda>(n, ks, x, y, acc). nat (n - y))") auto

declare emptyPositions_loop_y.simps [simp del]

function emptyPositions_loop_x ::
  "int \<Rightarrow> string set \<Rightarrow> int \<Rightarrow> Position list \<Rightarrow> Position list" where
  "emptyPositions_loop_x n snakePositions x emptyPositions =
     (if x < n
      then emptyPositions_loop_x n snakePositions (x + 1)
             (emptyPositions_loop_y n snakePositions x 0 emptyPositions)
      else emptyPositions)"
  by pat_completeness auto
termination
  by (relation "measure (\<lambda>(n, ks, x, acc). nat (n - x))") auto

declare emptyPositions_loop_x.simps [simp del]

definition getEmptyPositionsExcludingSnake :: "GameBoard \<Rightarrow> SnakeSegment list \<Rightarrow> Position list" where
  "getEmptyPositionsExcludingSnake this snakeSegments =
     (let snakePositions =
            set (map (\<lambda>segment. positionKey (pos_x (position segment)) (pos_y (position segment)))
                   snakeSegments)
      in emptyPositions_loop_x (board_gridSize this) snakePositions 0 [])"

definition getCenterPosition :: "GameBoard \<Rightarrow> Position" where
  "getCenterPosition this =
     \<lparr>pos_x = board_gridSize this div 2, pos_y = board_gridSize this div 2\<rparr>"

text \<open>
  \<open>Math.floor(Math.random() * n)\<close> for a draw \<open>u\<close> of \<open>Math.random()\<close>, which the
  language guarantees to lie in \<open>[0, 1)\<close>; and an array read, \<open>None\<close> being
  \<open>undefined\<close>.
\<close>

definition valid_random :: "real \<Rightarrow> bool" where
  "valid_random u \<longleftrightarrow> 0 \<le> u \<and> u < 1"

definition random_index :: "real \<Rightarrow> nat \<Rightarrow> int" where
  "random_index u n = \<lfloor>u * real n\<rfloor>"

definition array_get :: "'a list \<Rightarrow> int \<Rightarrow> 'a option" where
  "array_get xs i = (if 0 \<le> i \<and> i < int (length xs) then Some (xs ! nat i) else None)"

definition getRandomEmptyPosition :: "real \<Rightarrow> GameBoard \<Rightarrow> SnakeSegment list \<Rightarrow> Position option" where
  "getRandomEmptyPosition u this snakeSegments =
     (let emptyPositions = getEmptyPositionsExcludingSnake this snakeSegments
      in if length emptyPositions = 0 then None
         else array_get emptyPositions (random_index u (length emptyPositions)))"

text \<open>
  The specification's wording of the enumeration, for comparison: the cells of the
  \<open>N \<times> N\<close> grid outside the occupied set in row-major order, that is row by row
  (\<open>y\<close> outer), each row from left to right (\<open>x\<close> inner). The order the source
  produces, column by column, is written next to it.
\<close>

definition grid_range :: "int \<Rightarrow> int list" where
  "grid_range n = [0..n - 1]"

definition row_major_free_cells :: "int \<Rightarrow> Position set \<Rightarrow> Position list" where
  "row_major_free_cells n occupied =
     filter (\<lambda>p. p \<notin> occupied)
       (concat (map (\<lambda>y. map (\<lambda>x. \<lparr>pos_x = x, pos_y = y\<rparr>) (grid_range n)) (grid_range n)))"

definition column_major_free_cells :: "int \<Rightarrow> Position set \<Rightarrow> Position list" where
  "column_major_free_cells n occupied =
     filter (\<lambda>p. p \<notin> occupied)
       (concat (map (\<lambda>x. map (\<lambda>y. \<lparr>pos_x = x, pos_y = y\<rparr>) (grid_range n)) (grid_range n)))"

section \<open>Food (core/entities/food.ts)\<close>

text \<open>
  The position is optional because the engine can hand the constructor an
  \<open>undefined\<close> one (an array read past the end, see \<open>createInitialFood\<close>).
\<close>

record Food =
  food_position :: "Position option"
  food_type :: FoodType
  points :: int

fun calculatePoints :: "FoodType \<Rightarrow> int" where
  "calculatePoints REGULAR = 10"
| "calculatePoints SPECIAL = 25"

definition new_Food :: "GameConfig \<Rightarrow> Position option \<Rightarrow> FoodType \<Rightarrow> Food" where
  "new_Food cfg p t = \<lparr>food_position = p, food_type = t, points = calculatePoints t\<rparr>"

definition getPosition :: "Food \<Rightarrow> Position option" where
  "getPosition this = food_position this"

definition getType :: "Food \<Rightarrow> FoodType" where
  "getType this = food_type this"

definition getPoints :: "Food \<Rightarrow> int" where
  "getPoints this = points this"

text \<open>\<open>respawn\<close> with the draw \<open>u\<close> of its \<open>Math.random()\<close> call.\<close>

definition respawn :: "real \<Rightarrow> Position list \<Rightarrow> Food \<Rightarrow> Food outcome" where
  "respawn u availablePositions this =
     (if length availablePositions = 0 then Thrown SpawnError this
      else let randomIndex = random_index u (length availablePositions)
           in Returned (this\<lparr>food_position := array_get availablePositions randomIndex\<rparr>))"

definition createRandomFood :: "real \<Rightarrow> GameConfig \<Rightarrow> Position option \<Rightarrow> Food" where
  "createRandomFood u cfg p =
     (let isSpecial = (u < specialFoodSpawnChance cfg);
          t = (if isSpecial then SPECIAL else REGULAR)
      in new_Food cfg p t)"


section \<open>GameEngine (core/services/game-engine.ts)\<close>

text \<open>
  The event emitter is modelled by the list of the events emitted so far, oldest first;
  listeners are taken not to call back into the engine. Everything the engine reads from
  its environment (draws of \<open>Math.random()\<close>, readings of \<open>performance.now()\<close>, the
  date text, the handle returned by \<open>requestAnimationFrame\<close>) is an argument of the call
  that reads it.
\<close>

datatype GameEvent =
    Game_start GameConfig
  | Game_pause real
  | Game_resume real
  | Game_over ScoreData
  | Game_reset real
  | Snake_move Position
  | Snake_direction_change Direction
  | Food_eaten Food int
  | Food_spawn Food
  | Score_update ScoreData

record GameEngine =
  config :: GameConfig
  snake :: Snake
  food :: Food
  gameBoard :: GameBoard
  scoreManager :: ScoreManager
  emitted :: "GameEvent list"
  gameState :: GameState
  lastUpdateTime :: real
  animationFrameId :: "nat option"

record TickEnv =
  rand_position :: real
  rand_type :: real
  timer_now :: real
  date_now :: string

record LoopEnv =
  loop_now :: real
  loop_tick :: TickEnv
  loop_frame :: nat

record ResetEnv =
  reset_rand_position :: real
  reset_rand_type :: real
  reset_now :: real

record StartEnv =
  start_reset :: ResetEnv
  start_now :: real
  start_timer_now :: real
  start_loop :: LoopEnv

record ResumeEnv =
  resume_now :: real
  resume_loop :: LoopEnv
  resume_event_now :: real

fun bind_outcome :: "'a outcome \<Rightarrow> ('a \<Rightarrow> 'a outcome) \<Rightarrow> 'a outcome" where
  "bind_outcome (Returned s) f = f s"
| "bind_outcome (Thrown e s) f = Thrown e s"

definition emit :: "GameEvent \<Rightarrow> GameEngine \<Rightarrow> GameEngine" where
  "emit ev this = this\<lparr>emitted := emitted this @ [ev]\<rparr>"

text \<open>
  \<open>if (this.animationFrameId) { cancelAnimationFrame(...); this.animationFrameId = null; }\<close>:
  the test is JavaScript truthiness, false for \<open>null\<close> and for \<open>0\<close>.
\<close>

definition cancel_frame :: "GameEngine \<Rightarrow> GameEngine" where
  "cancel_frame this =
     (case animationFrameId this of
        None \<Rightarrow> this
      | Some n \<Rightarrow> if n \<noteq> 0 then this\<lparr>animationFrameId := None\<rparr> else this)"

text \<open>
  \<open>createInitialFood\<close> reads the board and the snake only. With no empty cell the
  index is \<open>0\<close> and the array read yields \<open>undefined\<close>, which becomes the position.
\<close>

definition createInitialFood :: "real \<Rightarrow> real \<Rightarrow> GameConfig \<Rightarrow> GameBoard \<Rightarrow> Snake \<Rightarrow> Food" where
  "createInitialFood u_position u_type cfg board sn =
     (let emptyPositions = getEmptyPositionsExcludingSnake board (getSegments sn);
          randomPosition = array_get emptyPositions (random_index u_position (length emptyPositions))
      in createRandomFood u_type cfg randomPosition)"

definition new_GameEngine :: "GameConfig \<Rightarrow> ScoreManager \<Rightarrow> real \<Rightarrow> real \<Rightarrow> GameEngine" where
  "new_GameEngine cfg sm u_position u_type =
     (let sn = new_Snake cfg;
          board = \<lparr>board_gridSize = gridSize cfg\<rparr>
      in \<lparr>config = cfg, snake = sn,
          food = createInitialFood u_position u_type cfg board sn,
          gameBoard = board, scoreManager = sm, emitted = [], gameState = MENU,
          lastUpdateTime = 0, animationFrameId = None\<rparr>)"

definition gameOver :: "string \<Rightarrow> GameEngine \<Rightarrow> GameEngine" where
  "gameOver lastPlayed this =
     (let this1 = this\<lparr>gameState := GAME_OVER\<rparr>;
          this2 = this1\<lparr>scoreManager := saveHighScore lastPlayed (scoreManager this1)\<rparr>;
          this3 = cancel_frame this2
      in emit (Game_over (getScore (scoreManager this3))) this3)"

definition spawnNewFood :: "TickEnv \<Rightarrow> GameEngine \<Rightarrow> GameEngine" where
  "spawnNewFood env this =
     (let emptyPositions = getEmptyPositionsExcludingSnake (gameBoard this) (getSegments (snake this))
      in if length emptyPositions = 0 then gameOver (date_now env) this
         else let this1 = this\<lparr>food :=
                    createRandomFood (rand_type env) (config this)
                      (array_get emptyPositions
                         (random_index (rand_position env) (length emptyPositions)))\<rparr>
              in emit (Food_spawn (food this1)) this1)"

definition checkCollisions :: "TickEnv \<Rightarrow> GameEngine \<Rightarrow> GameEngine outcome" where
  "checkCollisions env this =
     (case getHeadPosition (snake this) of
        None \<Rightarrow> Thrown TypeError this
      | Some headPosition \<Rightarrow>
          if isOutOfBounds (gameBoard this) headPosition \<or> hasSelfCollision (snake this)
          then Returned (gameOver (date_now env) this)
          else Returned this)"

text \<open>
  \<open>checkFoodConsumption\<close>: \<open>equals\<close> reads \<open>other.x\<close>, which throws a TypeError
  when the food's position is \<open>undefined\<close>.
\<close>

definition checkFoodConsumption :: "TickEnv \<Rightarrow> GameEngine \<Rightarrow> GameEngine outcome" where
  "checkFoodConsumption env this =
     (case getHeadPosition (snake this) of
        None \<Rightarrow> Thrown TypeError this
      | Some headPosition \<Rightarrow>
          (case getPosition (food this) of
             None \<Rightarrow> Thrown TypeError this
           | Some foodPosition \<Rightarrow>
               if equals headPosition foodPosition
               then (case grow (snake this) of
                       Thrown e sn \<Rightarrow> Thrown e (this\<lparr>snake := sn\<rparr>)
                     | Returned sn \<Rightarrow>
                         let this1 = this\<lparr>snake := sn\<rparr>;
                             this2 = this1\<lparr>scoreManager :=
                                       addPoints (getPoints (food this1)) (scoreManager this1)\<rparr>;
                             this3 = this2\<lparr>scoreManager := incrementFoodEaten (scoreManager this2)\<rparr>;
                             this4 = this3\<lparr>scoreManager :=
                                       updateSnakeLength (getLength (snake this3)) (scoreManager this3)\<rparr>;
                             this5 = emit (Food_eaten (food this4)
                                             (getCurrentScore (scoreManager this4))) this4
                         in Returned (spawnNewFood env this5))
               else Returned this))"

definition updateScore :: "TickEnv \<Rightarrow> GameEngine \<Rightarrow> GameEngine" where
  "updateScore env this =
     (let this1 = this\<lparr>scoreManager := updateTimer (timer_now env) (scoreManager this)\<rparr>;
          this2 = this1\<lparr>scoreManager :=
                    updateSnakeLength (getLength (snake this1)) (scoreManager this1)\<rparr>
      in emit (Score_update (getScore (scoreManager this2))) this2)"

definition update :: "TickEnv \<Rightarrow> GameEngine \<Rightarrow> GameEngine outcome" where
  "update env this =
     (if gameState this \<noteq> PLAYING then Returned this
      else case move (snake this) of
             Thrown e sn \<Rightarrow> Thrown e (this\<lparr>snake := sn\<rparr>)
           | Returned sn \<Rightarrow>
               bind_outcome (checkCollisions env (this\<lparr>snake := sn\<rparr>)) (\<lambda>this1.
               bind_outcome (checkFoodConsumption env this1) (\<lambda>this2.
                 let this3 = updateScore env this2
                 in case getHeadPosition (snake this3) of
                      None \<Rightarrow> Thrown TypeError this3
                    | Some headPosition \<Rightarrow> Returned (emit (Snake_move headPosition) this3))))"

definition gameLoop :: "LoopEnv \<Rightarrow> GameEngine \<Rightarrow> GameEngine outcome" where
  "gameLoop env this =
     (if gameState this \<noteq> PLAYING then Returned this
      else let currentTime = loop_now env;
               deltaTime = currentTime - lastUpdateTime this
           in bind_outcome
                (if deltaTime \<ge> gameSpeed (config this)
                 then bind_outcome (update (loop_tick env) this)
                        (\<lambda>this1. Returned (this1\<lparr>lastUpdateTime := currentTime\<rparr>))
                 else Returned this)
                (\<lambda>this2. Returned (this2\<lparr>animationFrameId := Some (loop_frame env)\<rparr>)))"

definition reset :: "ResetEnv \<Rightarrow> GameEngine \<Rightarrow> GameEngine" where
  "reset env this =
     (let this1 = this\<lparr>snake := snake_reset (snake this)\<rparr>;
          this2 = this1\<lparr>scoreManager := resetScore (scoreManager this1)\<rparr>;
          this3 = this2\<lparr>food :=
                    createInitialFood (reset_rand_position env) (reset_rand_type env)
                      (config this2) (gameBoard this2) (snake this2)\<rparr>;
          this4 = this3\<lparr>gameState := MENU\<rparr>;
          this5 = cancel_frame this4
      in emit (Game_reset (reset_now env)) this5)"

definition start :: "StartEnv \<Rightarrow> GameEngine \<Rightarrow> GameEngine outcome" where
  "start env this =
     (if gameState this \<noteq> MENU \<and> gameState this \<noteq> GAME_OVER then Returned this
      else let this1 = reset (start_reset env) this;
               this2 = this1\<lparr>gameState := PLAYING\<rparr>;
               this3 = this2\<lparr>lastUpdateTime := start_now env\<rparr>;
               this4 = this3\<lparr>scoreManager :=
                         startGameTimer (start_timer_now env) (scoreManager this3)\<rparr>
           in bind_outcome (gameLoop (start_loop env) this4)
                (\<lambda>this5. Returned (emit (Game_start (config this5)) this5)))"

definition pause :: "real \<Rightarrow> GameEngine \<Rightarrow> GameEngine" where
  "pause now this =
     (if gameState this \<noteq> PLAYING then this
      else emit (Game_pause now) (this\<lparr>gameState := PAUSED\<rparr>))"

definition resume :: "ResumeEnv \<Rightarrow> GameEngine \<Rightarrow> GameEngine outcome" where
  "resume env this =
     (if gameState this \<noteq> PAUSED then Returned this
      else let this1 = this\<lparr>gameState := PLAYING\<rparr>;
               this2 = this1\<lparr>lastUpdateTime := resume_now env\<rparr>
           in bind_outcome (gameLoop (resume_loop env) this2)
                (\<lambda>this3. Returned (emit (Game_resume (resume_event_now env)) this3)))"

definition togglePause :: "real \<Rightarrow> ResumeEnv \<Rightarrow> GameEngine \<Rightarrow> GameEngine outcome" where
  "togglePause now env this =
     (if gameState this = PLAYING then Returned (pause now this)
      else if gameState this = PAUSED then resume env this
      else Returned this)"

definition stop :: "GameEngine \<Rightarrow> GameEngine" where
  "stop this = cancel_frame (this\<lparr>gameState := MENU\<rparr>)"

definition engine_changeDirection :: "Direction \<Rightarrow> GameEngine \<Rightarrow> GameEngine" where
  "engine_changeDirection d this =
     (if gameState this \<noteq> PLAYING then this
      else emit (Snake_direction_change d) (this\<lparr>snake := changeDirection d (snake this)\<rparr>))"

definition getState :: "GameEngine \<Rightarrow> GameState" where
  "getState this = gameState this"

record GameRenderData =
  rd_snake :: "SnakeSegment list"
  rd_food :: Food
  rd_score :: ScoreData
  rd_gameState :: GameState

definition getRenderData :: "GameEngine \<Rightarrow> GameRenderData" where
  "getRenderData this =
     \<lparr>rd_snake = getSegments (snake this), rd_food = food this,
      rd_score = getScore (scoreManager this), rd_gameState = gameState this\<rparr>"

subsection \<open>The states an engine can be in\<close>

text \<open>
  An engine is built by its constructor and then driven through its public methods and
  through the animation-frame callback \<open>gameLoop\<close>. Every draw of \<open>Math.random()\<close>
  lies in \<open>[0, 1)\<close>; the other inputs are arbitrary. A call that throws leaves the
  engine as it was at the throw.
\<close>

definition valid_TickEnv :: "TickEnv \<Rightarrow> bool" where
  "valid_TickEnv env \<longleftrightarrow> valid_random (rand_position env) \<and> valid_random (rand_type env)"

definition valid_ResetEnv :: "ResetEnv \<Rightarrow> bool" where
  "valid_ResetEnv env \<longleftrightarrow>
     valid_random (reset_rand_position env) \<and> valid_random (reset_rand_type env)"

definition valid_StartEnv :: "StartEnv \<Rightarrow> bool" where
  "valid_StartEnv env \<longleftrightarrow>
     valid_ResetEnv (start_reset env) \<and> valid_TickEnv (loop_tick (start_loop env))"

definition valid_ResumeEnv :: "ResumeEnv \<Rightarrow> bool" where
  "valid_ResumeEnv env \<longleftrightarrow> valid_TickEnv (loop_tick (resume_loop env))"

inductive reachable :: "GameEngine \<Rightarrow> bool" where
  reach_new:
    "valid_random u_position \<Longrightarrow> valid_random u_type \<Longrightarrow>
     reachable (new_GameEngine cfg sm u_position u_type)"
| reach_start:
    "reachable s \<Longrightarrow> valid_StartEnv env \<Longrightarrow> reachable (state_of (start env s))"
| reach_pause:
    "reachable s \<Longrightarrow> reachable (pause now s)"
| reach_resume:
    "reachable s \<Longrightarrow> valid_ResumeEnv env \<Longrightarrow> reachable (state_of (resume env s))"
| reach_togglePause:
    "reachable s \<Longrightarrow> valid_ResumeEnv env \<Longrightarrow> reachable (state_of (togglePause now env s))"
| reach_stop:
    "reachable s \<Longrightarrow> reachable (stop s)"
| reach_reset:
    "reachable s \<Longrightarrow> valid_ResetEnv env \<Longrightarrow> reachable (reset env s)"
| reach_update:
    "reachable s \<Longrightarrow> valid_TickEnv env \<Longrightarrow> reachable (state_of (update env s))"
| reach_changeDirection:
    "reachable s \<Longrightarrow> reachable (engine_changeDirection d s)"
| reach_gameLoop:
    "reachable s \<Longrightarrow> valid_TickEnv (loop_tick env) \<Longrightarrow> reachable (state_of (gameLoop env s))"

subsection \<open>Predicates and examples used in the properties\<close>

text \<open>The condition under which \<open>checkCollisions\<close> ends the game, for a snake that has moved.\<close>

definition collided :: "GameBoard \<Rightarrow> Snake \<Rightarrow> bool" where
  "collided board sn =
     (case getHeadPosition sn of
        None \<Rightarrow> False
      | Some headPosition \<Rightarrow> isOutOfBounds board headPosition \<or> hasSelfCollision sn)"

fun is_food_event :: "GameEvent \<Rightarrow> bool" where
  "is_food_event (Food_eaten f n) = True"
| "is_food_event (Food_spawn f) = True"
| "is_food_event ev = False"

text \<open>The food, when it has a position, lies on the board and on no segment of the snake.\<close>

definition food_clear :: "GameEngine \<Rightarrow> bool" where
  "food_clear this =
     (case food_position (food this) of
        None \<Rightarrow> True
      | Some p \<Rightarrow> \<not> isOutOfBounds (gameBoard this) p \<and> \<not> containsPosition (snake this) p)"

definition engine_inv :: "GameEngine \<Rightarrow> bool" where
  "engine_inv this \<longleftrightarrow> gameState this \<noteq> PLAYING \<and> gameState this \<noteq> PAUSED \<or> food_clear this"

definition empty_Storage :: Storage where
  "empty_Storage = \<lparr>prefix = ''snake-game-'', items = Map.empty, available = True\<rparr>"

definition small_config :: GameConfig where
  "small_config = example_config\<lparr>gridSize := 2, initialSnakeLength := 1\<rparr>"

definition example_TickEnv :: TickEnv where
  "example_TickEnv =
     \<lparr>rand_position = 0, rand_type = 1 / 2, timer_now = 0, date_now = ''2024-01-01T00:00:00.000Z''\<rparr>"

definition example_StartEnv :: StartEnv where
  "example_StartEnv =
     \<lparr>start_reset = \<lparr>reset_rand_position = 0, reset_rand_type = 1 / 2, reset_now = 0\<rparr>,
      start_now = 0, start_timer_now = 0,
      start_loop = \<lparr>loop_now = 0, loop_tick = example_TickEnv, loop_frame = 1\<rparr>\<rparr>"

definition example_engine :: GameEngine where
  "example_engine = new_GameEngine small_config (new_ScoreManager empty_Storage) 0 (1 / 2)"

definition example_playing :: GameEngine where
  "example_playing = state_of (start example_StartEnv example_engine)"

section \<open>Properties\<close>

subsection \<open>Snake: construction, move and grow\<close>


lemma initializeSnake_loop_eq:
  "initializeSnake_loop n cx cy i segs =
     segs @ map (\<lambda>j. \<lparr>position = \<lparr>pos_x = cx - j, pos_y = cy\<rparr>, isHead = (j = 0)\<rparr>) [i..n - 1]"
proof (induction n cx cy i segs rule: initializeSnake_loop.induct)
  case (1 n cx cy i segs)
  show ?case
  proof (cases "i < n")
    case True
    then have "[i..n - 1] = i # [i + 1..n - 1]"
      by (simp add: upto_rec1)
    with True 1 show ?thesis
      by (simp add: initializeSnake_loop.simps [of n cx cy i segs])
  next
    case False
    then show ?thesis
      by (simp add: initializeSnake_loop.simps [of n cx cy i segs])
  qed
qed

lemma segments_initializeSnake:
  "segments (initializeSnake s) =
     map (\<lambda>j. \<lparr>position = \<lparr>pos_x = gridSize (snake_config s) div 2 - j,
                             pos_y = gridSize (snake_config s) div 2\<rparr>, isHead = (j = 0)\<rparr>)
       [0..initialSnakeLength (snake_config s) - 1]"
  by (simp add: initializeSnake_def initializeSnake_loop_eq)

lemma only_first_isHead_initializeSnake: "only_first_isHead (segments (initializeSnake s))"
proof (cases "0 < initialSnakeLength (snake_config s)")
  case True
  then have "[0..initialSnakeLength (snake_config s) - 1]
      = 0 # [1..initialSnakeLength (snake_config s) - 1]"
    by (simp add: upto_rec1)
  then show ?thesis
    by (simp add: segments_initializeSnake list_all_iff)
next
  case False
  then show ?thesis
    by (simp add: segments_initializeSnake)
qed

lemma initializeSnake_nonempty:
  "0 < initialSnakeLength (snake_config s) \<Longrightarrow> segments (initializeSnake s) \<noteq> []"
  by (simp add: segments_initializeSnake)

lemma snake_config_initializeSnake [simp]: "snake_config (initializeSnake s) = snake_config s"
  by (simp add: initializeSnake_def)

lemma move_nonempty:
  "segments s = h # rest \<Longrightarrow>
   move s = Returned (s\<lparr>direction := nextDirection s,
     segments := (if rest = []
       then [\<lparr>position = calculateNewHeadPosition (nextDirection s) (position h), isHead = True\<rparr>]
       else \<lparr>position = calculateNewHeadPosition (nextDirection s) (position h), isHead = True\<rparr>
              # h\<lparr>isHead := False\<rparr> # butlast rest)\<rparr>)"
  by (simp add: move_def Let_def)

lemma move_empty: "segments s = [] \<Longrightarrow> move s = Thrown TypeError (s\<lparr>direction := nextDirection s\<rparr>)"
  by (simp add: move_def)

lemma list_all_butlast: "list_all P xs \<Longrightarrow> list_all P (butlast xs)"
  by (auto simp: list_all_iff dest: in_set_butlastD)

lemma only_first_isHead_move:
  "only_first_isHead (segments s) \<Longrightarrow> only_first_isHead (segments (state_of (move s)))"
proof (cases "segments s")
  case Nil
  then show ?thesis by (simp add: move_empty)
next
  case (Cons h rest)
  assume "only_first_isHead (segments s)"
  with Cons show ?thesis
    by (simp add: move_nonempty list_all_butlast)
qed

lemma only_first_isHead_grow:
  "only_first_isHead (segments s) \<Longrightarrow> only_first_isHead (segments (state_of (grow s)))"
  by (cases "segments s") (simp_all add: grow_def Let_def)

lemma length_move [simp]: "length (segments (state_of (move s))) = length (segments s)"
  by (cases "segments s") (simp_all add: move_empty move_nonempty)

lemma snake_config_move [simp]: "snake_config (state_of (move s)) = snake_config s"
  by (cases "segments s") (simp_all add: move_empty move_nonempty)

lemma snake_config_grow [simp]: "snake_config (state_of (grow s)) = snake_config s"
  by (simp add: grow_def Let_def)

lemma grow_nonempty:
  "segments s \<noteq> [] \<Longrightarrow>
   grow s = Returned (s\<lparr>segments := segments s @ [\<lparr>position = position (last (segments s)), isHead = False\<rparr>]\<rparr>)"
  by (simp add: grow_def Let_def)

subsection \<open>Snake: moving and turning (C4, C5)\<close>


text \<open>
  Claim C4. For every snake with at least one segment, \<open>move\<close> returns normally, sets
  the current direction to the pending direction, puts the new head at the old head
  offset by exactly the unit vector of that direction (UP = (0,-1), DOWN = (0,+1),
  LEFT = (-1,0), RIGHT = (+1,0)), and leaves the length unchanged.
\<close>

theorem C4_move:
  "segments s \<noteq> [] \<Longrightarrow>
     \<not> has_thrown (move s) \<and>
     direction (state_of (move s)) = nextDirection s \<and>
     segments (state_of (move s)) \<noteq> [] \<and>
     pos_x (position (hd (segments (state_of (move s))))) =
       pos_x (position (hd (segments s))) + fst (unit_offset (nextDirection s)) \<and>
     pos_y (position (hd (segments (state_of (move s))))) =
       pos_y (position (hd (segments s))) + snd (unit_offset (nextDirection s)) \<and>
     length (segments (state_of (move s))) = length (segments s)"
proof -
  assume "segments s \<noteq> []"
  then obtain h rest where hr: "segments s = h # rest"
    by (cases "segments s") auto
  show ?thesis
    by (cases "nextDirection s") (simp_all add: move_nonempty [OF hr] hr)
qed

lemma new_Snake_example:
  "new_Snake example_config =
     \<lparr>snake_config = example_config,
      segments = [\<lparr>position = \<lparr>pos_x = 5, pos_y = 5\<rparr>, isHead = True\<rparr>,
                  \<lparr>position = \<lparr>pos_x = 4, pos_y = 5\<rparr>, isHead = False\<rparr>,
                  \<lparr>position = \<lparr>pos_x = 3, pos_y = 5\<rparr>, isHead = False\<rparr>],
      direction = RIGHT, nextDirection = RIGHT\<rparr>"
  by (simp add: new_Snake_def initializeSnake_def initializeSnake_loop.simps example_config_def)

text \<open>
  The 10 by 10 example of the tests: after a request for UP the head goes from (5,5) to
  (5,4) and the length stays 3.
\<close>

theorem C4_move_witness:
  "segments (changeDirection UP (new_Snake example_config)) \<noteq> [] \<and>
   position (hd (segments (changeDirection UP (new_Snake example_config)))) = \<lparr>pos_x = 5, pos_y = 5\<rparr> \<and>
   \<not> has_thrown (move (changeDirection UP (new_Snake example_config))) \<and>
   direction (state_of (move (changeDirection UP (new_Snake example_config)))) = UP \<and>
   pos_x (position (hd (segments (state_of (move (changeDirection UP (new_Snake example_config))))))) = 5 \<and>
   pos_y (position (hd (segments (state_of (move (changeDirection UP (new_Snake example_config))))))) = 4 \<and>
   length (segments (state_of (move (changeDirection UP (new_Snake example_config))))) = 3"
proof -
  have h: "segments (changeDirection UP (new_Snake example_config)) \<noteq> []"
    by (simp add: new_Snake_example changeDirection_def isOppositeDirection_def)
  show ?thesis
    using C4_move [OF h]
    by (simp add: new_Snake_example changeDirection_def isOppositeDirection_def)
qed

text \<open>
  Claim C5 as stated fails when another direction is already pending: the snake moves
  RIGHT, UP is pending, the request for LEFT (the opposite of the current direction) is
  dropped, and the following \<open>move\<close> goes UP, to (5,4), not on in the current direction.
\<close>

theorem C5_counterexample:
  "direction (changeDirection UP (new_Snake example_config)) = RIGHT \<and>
   opposites RIGHT = LEFT \<and>
   nextDirection (changeDirection LEFT (changeDirection UP (new_Snake example_config))) =
     nextDirection (changeDirection UP (new_Snake example_config)) \<and>
   direction (state_of (move (changeDirection LEFT (changeDirection UP (new_Snake example_config)))))
     \<noteq> direction (changeDirection UP (new_Snake example_config)) \<and>
   position (hd (segments (state_of (move (changeDirection LEFT
       (changeDirection UP (new_Snake example_config))))))) = \<lparr>pos_x = 5, pos_y = 4\<rparr>"
  by (simp add: new_Snake_example changeDirection_def isOppositeDirection_def move_def)

text \<open>
  Claim C5, amended. A request for the direction opposite to the current one leaves the
  pending direction unchanged, and the following \<open>move\<close> goes in that unchanged pending
  direction; this is the current direction whenever no other direction was pending. Any
  request that is not the opposite of the current direction becomes the pending direction.
\<close>

theorem C5_changeDirection:
  "(isOppositeDirection s d \<longrightarrow>
      nextDirection (changeDirection d s) = nextDirection s \<and>
      direction (state_of (move (changeDirection d s))) = nextDirection s \<and>
      (segments s \<noteq> [] \<longrightarrow>
         \<not> has_thrown (move (changeDirection d s)) \<and>
         position (hd (segments (state_of (move (changeDirection d s))))) =
           calculateNewHeadPosition (nextDirection s) (position (hd (segments s))))) \<and>
   (isOppositeDirection s d \<and> nextDirection s = direction s \<longrightarrow>
      direction (state_of (move (changeDirection d s))) = direction s) \<and>
   (\<not> isOppositeDirection s d \<longrightarrow> nextDirection (changeDirection d s) = d)"
  by (cases "segments s") (simp_all add: changeDirection_def move_empty move_nonempty)

text \<open>
  The three cases on the example snake: a dropped request with UP pending, a dropped
  request with nothing pending, and an accepted request.
\<close>

theorem C5_changeDirection_witness:
  "isOppositeDirection (changeDirection UP (new_Snake example_config)) LEFT \<and>
   segments (changeDirection UP (new_Snake example_config)) \<noteq> [] \<and>
   nextDirection (changeDirection LEFT (changeDirection UP (new_Snake example_config))) = UP \<and>
   direction (state_of (move (changeDirection LEFT (changeDirection UP (new_Snake example_config))))) = UP \<and>
   isOppositeDirection (new_Snake example_config) LEFT \<and>
   nextDirection (new_Snake example_config) = direction (new_Snake example_config) \<and>
   direction (state_of (move (changeDirection LEFT (new_Snake example_config)))) = RIGHT \<and>
   \<not> isOppositeDirection (new_Snake example_config) DOWN \<and>
   nextDirection (changeDirection DOWN (new_Snake example_config)) = DOWN"
  using C5_changeDirection [of "changeDirection UP (new_Snake example_config)" LEFT]
    C5_changeDirection [of "new_Snake example_config" LEFT]
    C5_changeDirection [of "new_Snake example_config" DOWN]
  by (simp add: new_Snake_example changeDirection_def isOppositeDirection_def)

subsection \<open>Snake: growth and head flags (C6, C9)\<close>


lemma move_positions:
  "segments s = h # rest \<Longrightarrow>
   map position (segments (state_of (move s))) =
     calculateNewHeadPosition (nextDirection s) (position h) # map position (butlast (h # rest))"
  by (simp add: move_nonempty)

lemma move_keeps_nonempty: "segments s \<noteq> [] \<Longrightarrow> segments (state_of (move s)) \<noteq> []"
  by (cases "segments s") (simp_all add: move_nonempty)

lemma length_run_moves:
  "list_all (\<lambda>op. op \<noteq> Grow \<and> op \<noteq> Reset) ops \<Longrightarrow>
   length (segments (run_SnakeOps ops s)) = length (segments s)"
proof (induction ops arbitrary: s)
  case Nil
  then show ?case by simp
next
  case (Cons op ops)
  then show ?case
    by (cases op) (simp_all add: changeDirection_def)
qed

text \<open>
  Claim C6. For every snake with at least one segment (the data model's invariant),
  \<open>grow\<close> appends a copy of the tail, and \<open>grow\<close> followed by one \<open>move\<close> makes the
  snake exactly one segment longer: the new head followed by all previous positions in
  their order. Any sequence of \<open>move\<close> and direction requests without \<open>grow\<close> (or
  \<open>reset\<close>) keeps the length.
\<close>

theorem C6_grow_then_move:
  "segments s \<noteq> [] \<Longrightarrow>
     \<not> has_thrown (grow s) \<and>
     map position (segments (state_of (grow s))) =
       map position (segments s) @ [position (last (segments s))] \<and>
     \<not> has_thrown (move (state_of (grow s))) \<and>
     length (segments (state_of (move (state_of (grow s))))) = length (segments s) + 1 \<and>
     map position (segments (state_of (move (state_of (grow s))))) =
       calculateNewHeadPosition (nextDirection s) (position (hd (segments s)))
         # map position (segments s) \<and>
     (list_all (\<lambda>op. op \<noteq> Grow \<and> op \<noteq> Reset) ops \<longrightarrow>
        length (segments (run_SnakeOps ops s)) = length (segments s))"
proof -
  assume ne: "segments s \<noteq> []"
  then obtain h rest where hr: "segments s = h # rest"
    by (cases "segments s") auto
  let ?g = "s\<lparr>segments := segments s @ [\<lparr>position = position (last (segments s)), isHead = False\<rparr>]\<rparr>"
  have g: "grow s = Returned ?g"
    by (rule grow_nonempty [OF ne])
  have gs: "segments ?g = h # (rest @ [\<lparr>position = position (last (segments s)), isHead = False\<rparr>])"
    by (simp add: hr)
  have "map position (segments (state_of (move ?g))) =
       calculateNewHeadPosition (nextDirection ?g) (position h)
         # map position (butlast (h # (rest @ [\<lparr>position = position (last (segments s)), isHead = False\<rparr>])))"
    by (rule move_positions [OF gs])
  then have m: "map position (segments (state_of (move ?g))) =
       calculateNewHeadPosition (nextDirection s) (position h) # map position (segments s)"
    by (simp add: hr butlast_append)
  have t: "\<not> has_thrown (move ?g)"
    by (simp add: move_nonempty [OF gs])
  have l: "length (segments (state_of (move ?g))) = length (segments s) + 1"
    by (simp add: hr)
  show ?thesis
    using m t l by (simp add: g hr length_run_moves)
qed

text \<open>
  On the example snake: length 3, length 4 after \<open>grow\<close> and \<open>move\<close>, length 3
  after three moves.
\<close>

theorem C6_grow_then_move_witness:
  "segments (new_Snake example_config) \<noteq> [] \<and>
   length (segments (new_Snake example_config)) = 3 \<and>
   length (segments (state_of (move (state_of (grow (new_Snake example_config)))))) = 4 \<and>
   list_all (\<lambda>op. op \<noteq> Grow \<and> op \<noteq> Reset) [Move, ChangeDirection UP, Move, Move] \<and>
   length (segments (run_SnakeOps [Move, ChangeDirection UP, Move, Move]
     (new_Snake example_config))) = 3"
proof -
  have h: "segments (new_Snake example_config) \<noteq> []"
    by (simp add: new_Snake_example)
  have l: "length (segments (new_Snake example_config)) = 3"
    by (simp add: new_Snake_example)
  show ?thesis
    using C6_grow_then_move [OF h, of "[Move, ChangeDirection UP, Move, Move]"] h l
    by simp
qed

lemma only_first_isHead_apply:
  "only_first_isHead (segments s) \<Longrightarrow> only_first_isHead (segments (apply_SnakeOp op s))"
  by (cases op)
    (simp_all add: only_first_isHead_move only_first_isHead_grow snake_reset_def
      only_first_isHead_initializeSnake changeDirection_def)

lemma snake_config_apply [simp]: "snake_config (apply_SnakeOp op s) = snake_config s"
  by (cases op) (simp_all add: snake_reset_def changeDirection_def)

lemma nonempty_apply:
  "segments s \<noteq> [] \<Longrightarrow> 0 < initialSnakeLength (snake_config s) \<Longrightarrow>
   segments (apply_SnakeOp op s) \<noteq> []"
proof (cases op)
  case Move
  assume "segments s \<noteq> []"
  with Move show ?thesis by (simp add: move_keeps_nonempty)
next
  case Grow
  assume "segments s \<noteq> []"
  with Grow show ?thesis by (simp add: grow_nonempty)
next
  case Reset
  assume "0 < initialSnakeLength (snake_config s)"
  with Reset show ?thesis by (simp add: snake_reset_def initializeSnake_nonempty)
next
  case (ChangeDirection d)
  assume "segments s \<noteq> []"
  with ChangeDirection show ?thesis by (simp add: changeDirection_def)
qed

lemma run_SnakeOps_invariant:
  "only_first_isHead (segments s) \<Longrightarrow>
   (0 < initialSnakeLength (snake_config s) \<longrightarrow> segments s \<noteq> []) \<Longrightarrow>
   only_first_isHead (segments (run_SnakeOps ops s)) \<and>
   (0 < initialSnakeLength (snake_config s) \<longrightarrow> segments (run_SnakeOps ops s) \<noteq> [])"
proof (induction ops arbitrary: s)
  case Nil
  then show ?case by simp
next
  case (Cons op ops)
  have a: "only_first_isHead (segments (apply_SnakeOp op s))"
    using Cons.prems(1) by (rule only_first_isHead_apply)
  have b: "0 < initialSnakeLength (snake_config (apply_SnakeOp op s)) \<longrightarrow>
      segments (apply_SnakeOp op s) \<noteq> []"
    using Cons.prems(2) by (simp add: nonempty_apply)
  from Cons.IH [OF a b] show ?case by simp
qed

text \<open>
  Claim C9. After construction and after any sequence of \<open>move\<close>, \<open>grow\<close>,
  \<open>reset\<close> (and direction requests), the first segment is the only one flagged as
  head; with a positive initial length there always is a first segment.
\<close>

theorem C9_only_first_isHead:
  "only_first_isHead (segments (run_SnakeOps ops (new_Snake cfg))) \<and>
   (0 < initialSnakeLength cfg \<longrightarrow> segments (run_SnakeOps ops (new_Snake cfg)) \<noteq> [])"
proof -
  have a: "only_first_isHead (segments (new_Snake cfg))"
    by (simp add: new_Snake_def only_first_isHead_initializeSnake)
  have c: "snake_config (new_Snake cfg) = cfg"
    by (simp add: new_Snake_def)
  have b: "0 < initialSnakeLength (snake_config (new_Snake cfg)) \<longrightarrow> segments (new_Snake cfg) \<noteq> []"
    by (simp add: new_Snake_def initializeSnake_nonempty)
  from run_SnakeOps_invariant [OF a b, of ops] c show ?thesis by simp
qed

text \<open>
  On the example snake, with the flags after a grow and two moves written out.
\<close>

theorem C9_only_first_isHead_witness:
  "0 < initialSnakeLength example_config \<and>
   segments (run_SnakeOps [Grow, ChangeDirection UP, Move, Move, Reset, Move] (new_Snake example_config)) \<noteq> [] \<and>
   only_first_isHead (segments (run_SnakeOps [Grow, ChangeDirection UP, Move, Move, Reset, Move]
     (new_Snake example_config))) \<and>
   map isHead (segments (run_SnakeOps [Grow, ChangeDirection UP, Move, Move] (new_Snake example_config)))
     = [True, False, False, False]"
proof -
  have h: "0 < initialSnakeLength example_config"
    by (simp add: example_config_def)
  have v: "map isHead (segments (run_SnakeOps [Grow, ChangeDirection UP, Move, Move] (new_Snake example_config)))
     = [True, False, False, False]"
    by code_simp
  show ?thesis
    using C9_only_first_isHead [of "[Grow, ChangeDirection UP, Move, Move, Reset, Move]" example_config] h v
    by simp
qed

subsection \<open>GameBoard: position keys and the enumeration loops\<close>


lemma digit_char_inj: "d < 10 \<Longrightarrow> e < 10 \<Longrightarrow> digit_char d = digit_char e \<Longrightarrow> d = e"
proof -
  assume d: "d < 10" and e: "e < 10" and eq: "digit_char d = digit_char e"
  have dist: "distinct ''0123456789''" by simp
  have len: "length ''0123456789'' = 10" by simp
  from eq d e have "''0123456789'' ! d = ''0123456789'' ! e"
    by (simp add: digit_char_def)
  with dist d e len show "d = e"
    by (simp only: nth_eq_iff_index_eq)
qed

lemma digit_char_in: "digit_char d \<in> set ''0123456789''"
proof -
  have "d mod 10 < length ''0123456789''" by simp
  then have "''0123456789'' ! (d mod 10) \<in> set ''0123456789''"
    by (rule nth_mem)
  then show ?thesis by (simp only: digit_char_def)
qed

lemma string_of_nat_digits: "set (string_of_nat n) \<subseteq> set ''0123456789''"
proof (induction n rule: string_of_nat.induct)
  case (1 n)
  show ?case
  proof (cases "n < 10")
    case True
    then show ?thesis
      using digit_char_in [of n] by (simp add: string_of_nat.simps [of n])
  next
    case False
    then show ?thesis
      using 1 digit_char_in [of "n mod 10"] by (simp add: string_of_nat.simps [of n])
  qed
qed

lemma string_of_nat_nonempty: "string_of_nat n \<noteq> []"
  by (simp add: string_of_nat.simps [of n])

lemma string_of_nat_inj: "string_of_nat n = string_of_nat m \<Longrightarrow> n = m"
proof (induction n arbitrary: m rule: string_of_nat.induct)
  case (1 n)
  show ?case
  proof (cases "n < 10")
    case n: True
    show ?thesis
    proof (cases "m < 10")
      case True
      with n 1(2) show ?thesis
        by (simp add: string_of_nat.simps [of n] string_of_nat.simps [of m] digit_char_inj)
    next
      case False
      with n 1(2) show ?thesis
        using string_of_nat_nonempty [of "m div 10"]
        by (simp add: string_of_nat.simps [of n] string_of_nat.simps [of m])
    qed
  next
    case n: False
    show ?thesis
    proof (cases "m < 10")
      case True
      with n 1(2) show ?thesis
        using string_of_nat_nonempty [of "n div 10"]
        by (simp add: string_of_nat.simps [of n] string_of_nat.simps [of m])
    next
      case False
      with n 1(2) have a: "string_of_nat (n div 10) = string_of_nat (m div 10)"
        and b: "digit_char (n mod 10) = digit_char (m mod 10)"
        by (simp_all add: string_of_nat.simps [of n] string_of_nat.simps [of m])
      from 1(1) [OF n a] have "n div 10 = m div 10" .
      moreover from b have "n mod 10 = m mod 10"
        by (simp add: digit_char_inj)
      ultimately show ?thesis
        by (metis div_mult_mod_eq)
    qed
  qed
qed

lemma number_toString_inj: "number_toString i = number_toString j \<Longrightarrow> i = j"
proof -
  assume eq: "number_toString i = number_toString j"
  have nm: "\<And>n. hd (string_of_nat n) \<noteq> CHR ''-''"
  proof -
    fix n
    have "hd (string_of_nat n) \<in> set (string_of_nat n)"
      by (simp add: string_of_nat_nonempty)
    with string_of_nat_digits [of n] have "hd (string_of_nat n) \<in> set ''0123456789''"
      by blast
    then show "hd (string_of_nat n) \<noteq> CHR ''-''" by auto
  qed
  show ?thesis
  proof (cases "i < 0")
    case i: True
    show ?thesis
    proof (cases "j < 0")
      case True
      with i eq have "nat (- i) = nat (- j)"
        by (simp add: number_toString_def string_of_nat_inj)
      with i True show ?thesis by simp
    next
      case False
      with i eq have "CHR ''-'' # string_of_nat (nat (- i)) = string_of_nat (nat j)"
        by (simp add: number_toString_def)
      then have "hd (string_of_nat (nat j)) = CHR ''-''"
        by (metis list.sel(1))
      with nm show ?thesis by blast
    qed
  next
    case i: False
    show ?thesis
    proof (cases "j < 0")
      case True
      with i eq have "string_of_nat (nat i) = CHR ''-'' # string_of_nat (nat (- j))"
        by (simp add: number_toString_def)
      then have "hd (string_of_nat (nat i)) = CHR ''-''"
        by (metis list.sel(1))
      with nm show ?thesis by blast
    next
      case False
      with i eq have "nat i = nat j"
        by (simp add: number_toString_def string_of_nat_inj)
      with i False show ?thesis by simp
    qed
  qed
qed

lemma number_toString_no_comma: "CHR '','' \<notin> set (number_toString i)"
proof -
  have "\<And>n. CHR '','' \<notin> set (string_of_nat n)"
  proof -
    fix n
    show "CHR '','' \<notin> set (string_of_nat n)"
      using string_of_nat_digits [of n] by auto
  qed
  then show ?thesis
    by (simp add: number_toString_def)
qed

lemma split_at_separator:
  "c \<notin> set a \<Longrightarrow> c \<notin> set a' \<Longrightarrow> a @ c # b = a' @ c # b' \<Longrightarrow> a = a' \<and> b = b'"
proof (induction a arbitrary: a')
  case Nil
  then show ?case by (cases a') auto
next
  case (Cons k a)
  then show ?case by (cases a') auto
qed

lemma positionKey_inj: "positionKey x y = positionKey x' y' \<longleftrightarrow> x = x' \<and> y = y'"
proof
  assume "positionKey x y = positionKey x' y'"
  then have "number_toString x @ CHR '','' # number_toString y =
      number_toString x' @ CHR '','' # number_toString y'"
    by (simp add: positionKey_def)
  then have "number_toString x = number_toString x' \<and> number_toString y = number_toString y'"
    by (rule split_at_separator [OF number_toString_no_comma number_toString_no_comma])
  then show "x = x' \<and> y = y'"
    by (simp add: number_toString_inj)
next
  assume "x = x' \<and> y = y'"
  then show "positionKey x y = positionKey x' y'" by simp
qed

lemma positionKey_mem:
  "positionKey x y \<in> set (map (\<lambda>segment. positionKey (pos_x (position segment)) (pos_y (position segment))) segs)
   \<longleftrightarrow> \<lparr>pos_x = x, pos_y = y\<rparr> \<in> position ` set segs"
proof -
  have "\<And>p. (x = pos_x p \<and> y = pos_y p) = (\<lparr>pos_x = x, pos_y = y\<rparr> = p)"
    by auto
  then show ?thesis
    by (auto simp: positionKey_inj image_iff)
qed

lemma emptyPositions_loop_y_eq:
  "emptyPositions_loop_y n ks x y acc =
     acc @ map (\<lambda>y. \<lparr>pos_x = x, pos_y = y\<rparr>) (filter (\<lambda>y. positionKey x y \<notin> ks) [y..n - 1])"
proof (induction n ks x y acc rule: emptyPositions_loop_y.induct)
  case (1 n ks x y acc)
  show ?case
  proof (cases "y < n")
    case True
    then have "[y..n - 1] = y # [y + 1..n - 1]"
      by (simp add: upto_rec1)
    with True 1 show ?thesis
      by (simp add: emptyPositions_loop_y.simps [of n ks x y acc])
  next
    case False
    then show ?thesis
      by (simp add: emptyPositions_loop_y.simps [of n ks x y acc])
  qed
qed

lemma emptyPositions_loop_x_eq:
  "emptyPositions_loop_x n ks x acc =
     acc @ concat (map (\<lambda>x. map (\<lambda>y. \<lparr>pos_x = x, pos_y = y\<rparr>)
                              (filter (\<lambda>y. positionKey x y \<notin> ks) [0..n - 1])) [x..n - 1])"
proof (induction n ks x acc rule: emptyPositions_loop_x.induct)
  case (1 n ks x acc)
  show ?case
  proof (cases "x < n")
    case True
    then have "[x..n - 1] = x # [x + 1..n - 1]"
      by (simp add: upto_rec1)
    with True 1 show ?thesis
      by (simp add: emptyPositions_loop_x.simps [of n ks x acc] emptyPositions_loop_y_eq)
  next
    case False
    then show ?thesis
      by (simp add: emptyPositions_loop_x.simps [of n ks x acc])
  qed
qed

lemma getEmptyPositionsExcludingSnake_eq:
  "getEmptyPositionsExcludingSnake b segs =
     column_major_free_cells (board_gridSize b) (position ` set segs)"
proof -
  have "\<And>x. map (\<lambda>y. \<lparr>pos_x = x, pos_y = y\<rparr>)
          (filter (\<lambda>y. positionKey x y \<notin> set (map (\<lambda>segment. positionKey (pos_x (position segment))
              (pos_y (position segment))) segs)) [0..board_gridSize b - 1])
        = filter (\<lambda>p. p \<notin> position ` set segs)
            (map (\<lambda>y. \<lparr>pos_x = x, pos_y = y\<rparr>) [0..board_gridSize b - 1])"
    by (simp only: positionKey_mem filter_map o_def)
  then show ?thesis
    by (simp only: getEmptyPositionsExcludingSnake_def Let_def emptyPositions_loop_x_eq
        column_major_free_cells_def grid_range_def filter_concat map_map o_def append_Nil)
qed

lemma grid_cells_mem:
  "p \<in> set (concat (map (\<lambda>x. map (\<lambda>y. \<lparr>pos_x = x, pos_y = y\<rparr>) [0..n - 1]) [0..n - 1])) \<longleftrightarrow>
     0 \<le> pos_x p \<and> pos_x p < n \<and> 0 \<le> pos_y p \<and> pos_y p < n"
  by (cases p) (auto simp: image_iff)

lemma set_column_major_free_cells:
  "set (column_major_free_cells n occ) =
     {p. 0 \<le> pos_x p \<and> pos_x p < n \<and> 0 \<le> pos_y p \<and> pos_y p < n} - occ"
proof -
  have "set (column_major_free_cells n occ) =
      {p \<in> set (concat (map (\<lambda>x. map (\<lambda>y. \<lparr>pos_x = x, pos_y = y\<rparr>) [0..n - 1]) [0..n - 1])).
         p \<notin> occ}"
    by (simp only: column_major_free_cells_def grid_range_def set_filter)
  also have "\<dots> = {p. 0 \<le> pos_x p \<and> pos_x p < n \<and> 0 \<le> pos_y p \<and> pos_y p < n} - occ"
    by (simp only: grid_cells_mem) blast
  finally show ?thesis .
qed

lemma distinct_column_major_free_cells: "distinct (column_major_free_cells n occ)"
proof -
  have "distinct (concat (map (\<lambda>x. map (\<lambda>y. \<lparr>pos_x = x, pos_y = y\<rparr>) [0..n - 1]) [0..n - 1]))"
    by (rule distinct_concat) (auto simp: distinct_map inj_on_def)
  then show ?thesis
    by (simp add: column_major_free_cells_def grid_range_def)
qed

subsection \<open>GameBoard: the free cells (C3)\<close>


lemma equals_iff: "equals p q \<longleftrightarrow> p = q"
  by (cases p, cases q) (simp add: equals_def)

lemma getSegments_eq [simp]: "getSegments sn = segments sn"
proof -
  have "(\<lambda>segment. \<lparr>position = position segment, isHead = isHead segment\<rparr>) = (\<lambda>segment. segment)"
  proof
    fix segment :: SnakeSegment
    show "\<lparr>position = position segment, isHead = isHead segment\<rparr> = segment"
      by (cases segment) simp
  qed
  then show ?thesis
    by (simp add: getSegments_def)
qed

lemma containsPosition_iff: "containsPosition sn p \<longleftrightarrow> p \<in> position ` set (segments sn)"
  by (auto simp: containsPosition_def list_ex_iff equals_iff image_iff)

lemma isOutOfBounds_iff:
  "\<not> isOutOfBounds b p \<longleftrightarrow>
     0 \<le> pos_x p \<and> pos_x p < board_gridSize b \<and> 0 \<le> pos_y p \<and> pos_y p < board_gridSize b"
  by (auto simp: isOutOfBounds_def)

lemma set_getEmptyPositionsExcludingSnake:
  "set (getEmptyPositionsExcludingSnake b segs) = {p. \<not> isOutOfBounds b p} - position ` set segs"
  by (simp only: getEmptyPositionsExcludingSnake_eq set_column_major_free_cells isOutOfBounds_iff)

text \<open>
  Claim C3 as stated fails on the order: on the empty 2 by 2 board the source lists
  (0,0), (0,1), (1,0), (1,1), column by column, where row-major order is
  (0,0), (1,0), (0,1), (1,1).
\<close>

theorem C3_counterexample:
  "getEmptyPositionsExcludingSnake \<lparr>board_gridSize = 2\<rparr> [] =
     [\<lparr>pos_x = 0, pos_y = 0\<rparr>, \<lparr>pos_x = 0, pos_y = 1\<rparr>,
      \<lparr>pos_x = 1, pos_y = 0\<rparr>, \<lparr>pos_x = 1, pos_y = 1\<rparr>] \<and>
   row_major_free_cells 2 {} =
     [\<lparr>pos_x = 0, pos_y = 0\<rparr>, \<lparr>pos_x = 1, pos_y = 0\<rparr>,
      \<lparr>pos_x = 0, pos_y = 1\<rparr>, \<lparr>pos_x = 1, pos_y = 1\<rparr>] \<and>
   getEmptyPositionsExcludingSnake \<lparr>board_gridSize = 2\<rparr> [] \<noteq> row_major_free_cells 2 {}"
proof -
  have a: "getEmptyPositionsExcludingSnake \<lparr>board_gridSize = 2\<rparr> [] =
     [\<lparr>pos_x = 0, pos_y = 0\<rparr>, \<lparr>pos_x = 0, pos_y = 1\<rparr>,
      \<lparr>pos_x = 1, pos_y = 0\<rparr>, \<lparr>pos_x = 1, pos_y = 1\<rparr>]"
    by (simp add: getEmptyPositionsExcludingSnake_def emptyPositions_loop_x.simps
        emptyPositions_loop_y.simps)
  have u: "[0..(1::int)] = [0, 1]"
    by (simp add: upto_rec1)
  have b: "row_major_free_cells 2 {} =
     [\<lparr>pos_x = 0, pos_y = 0\<rparr>, \<lparr>pos_x = 1, pos_y = 0\<rparr>,
      \<lparr>pos_x = 0, pos_y = 1\<rparr>, \<lparr>pos_x = 1, pos_y = 1\<rparr>]"
    by (simp add: row_major_free_cells_def grid_range_def u)
  show ?thesis
    by (simp add: a b)
qed

text \<open>
  Claim C3, amended. For every grid size and every list of snake segments the
  enumeration returns exactly the cells of the grid that no segment occupies, each once,
  in column-major order: \<open>x\<close> ascending, and \<open>y\<close> ascending within one \<open>x\<close>.
\<close>

theorem C3_column_major:
  "getEmptyPositionsExcludingSnake b segs =
     column_major_free_cells (board_gridSize b) (position ` set segs) \<and>
   set (getEmptyPositionsExcludingSnake b segs) =
     {p. \<not> isOutOfBounds b p} - position ` set segs \<and>
   distinct (getEmptyPositionsExcludingSnake b segs)"
  by (simp add: set_getEmptyPositionsExcludingSnake)
    (simp add: getEmptyPositionsExcludingSnake_eq distinct_column_major_free_cells)

text \<open>
  The 2 by 2 board with the snake on (1,0).
\<close>

theorem C3_column_major_witness:
  "getEmptyPositionsExcludingSnake \<lparr>board_gridSize = 2\<rparr>
     [\<lparr>position = \<lparr>pos_x = 1, pos_y = 0\<rparr>, isHead = True\<rparr>] =
     [\<lparr>pos_x = 0, pos_y = 0\<rparr>, \<lparr>pos_x = 0, pos_y = 1\<rparr>, \<lparr>pos_x = 1, pos_y = 1\<rparr>]"
proof -
  have u: "[0..(1::int)] = [0, 1]"
    by (simp add: upto_rec1)
  have "column_major_free_cells 2 (position ` set [\<lparr>position = \<lparr>pos_x = 1, pos_y = 0\<rparr>, isHead = True\<rparr>])
     = [\<lparr>pos_x = 0, pos_y = 0\<rparr>, \<lparr>pos_x = 0, pos_y = 1\<rparr>, \<lparr>pos_x = 1, pos_y = 1\<rparr>]"
    by (simp add: column_major_free_cells_def grid_range_def u)
  then show ?thesis
    using C3_column_major [of "\<lparr>board_gridSize = 2\<rparr>"
        "[\<lparr>position = \<lparr>pos_x = 1, pos_y = 0\<rparr>, isHead = True\<rparr>]"]
    by simp
qed

lemma random_index_range:
  "valid_random u \<Longrightarrow> 0 < n \<Longrightarrow> 0 \<le> random_index u n \<and> random_index u n < int n"
proof -
  assume v: "valid_random u" and n: "0 < n"
  then have "0 \<le> u * real n"
    by (simp add: valid_random_def)
  then have a: "0 \<le> random_index u n"
    by (simp add: random_index_def)
  from v n have "u * real n < real n"
    by (simp add: valid_random_def)
  then have "\<lfloor>u * real n\<rfloor> < int n"
    by (simp add: floor_less_iff)
  with a show ?thesis
    by (simp add: random_index_def)
qed

lemma array_get_random:
  "valid_random u \<Longrightarrow> xs \<noteq> [] \<Longrightarrow>
   \<exists>p\<in>set xs. array_get xs (random_index u (length xs)) = Some p"
proof -
  assume v: "valid_random u" and ne: "xs \<noteq> []"
  then have r: "0 \<le> random_index u (length xs) \<and> random_index u (length xs) < int (length xs)"
    by (simp add: random_index_range)
  then have "nat (random_index u (length xs)) < length xs"
    by linarith
  then have "xs ! nat (random_index u (length xs)) \<in> set xs"
    by (rule nth_mem)
  with r show ?thesis
    by (simp add: array_get_def)
qed

lemma array_get_empty: "array_get [] i = None"
  by (simp add: array_get_def)

subsection \<open>ScoreManager, pause and stop (C7, C8, C10)\<close>


text \<open>
  Claim C7 as stated fails for one session counter: \<open>resetScore\<close> sets the snake
  length counter to 3, not to zero.
\<close>

theorem C7_counterexample:
  "snakeLength (resetScore (addPoints 5 (addPoints 10 (new_ScoreManager empty_Storage)))) = 3 \<and>
   snakeLength (resetScore (addPoints 5 (addPoints 10 (new_ScoreManager empty_Storage)))) \<noteq> 0"
  by (simp add: resetScore_def)

text \<open>
  Claim C7, amended. \<open>addPoints p\<close> adds \<open>p\<close> to the current score and raises the high
  score to the new current score when that is larger; from a current score of zero,
  \<open>addPoints 10\<close> and \<open>addPoints 5\<close> give current score 15 and high score
  \<open>max 15\<close> of the previous one. \<open>resetScore\<close> sets the current score, the food
  counter, the game time and the timer start to zero and the snake length counter to 3,
  and leaves the high score and the storage unchanged.
\<close>

theorem C7_score:
  "currentScore (addPoints p sm) = currentScore sm + p \<and>
   highScore (addPoints p sm) = max (highScore sm) (currentScore sm + p) \<and>
   (currentScore sm = 0 \<longrightarrow>
      currentScore (addPoints 5 (addPoints 10 sm)) = 15 \<and>
      highScore (addPoints 5 (addPoints 10 sm)) = max 15 (highScore sm)) \<and>
   currentScore (resetScore sm) = 0 \<and>
   foodEaten (resetScore sm) = 0 \<and>
   gameTime (resetScore sm) = 0 \<and>
   gameStartTime (resetScore sm) = 0 \<and>
   snakeLength (resetScore sm) = 3 \<and>
   highScore (resetScore sm) = highScore sm \<and>
   storage (resetScore sm) = storage sm"
  by (simp add: addPoints_def updateHighScore_def resetScore_def max_def)

text \<open>
  A fresh score manager over an empty store.
\<close>

theorem C7_score_witness:
  "currentScore (new_ScoreManager empty_Storage) = 0 \<and>
   currentScore (addPoints 5 (addPoints 10 (new_ScoreManager empty_Storage))) = 15 \<and>
   highScore (addPoints 5 (addPoints 10 (new_ScoreManager empty_Storage))) = 15 \<and>
   highScore (resetScore (addPoints 5 (addPoints 10 (new_ScoreManager empty_Storage)))) = 15 \<and>
   currentScore (resetScore (addPoints 5 (addPoints 10 (new_ScoreManager empty_Storage)))) = 0"
proof -
  have h: "currentScore (new_ScoreManager empty_Storage) = 0"
    by (simp add: new_ScoreManager_def loadHighScore_def storage_get_def empty_Storage_def)
  have b: "highScore (new_ScoreManager empty_Storage) = 0"
    by (simp add: new_ScoreManager_def loadHighScore_def storage_get_def empty_Storage_def)
  show ?thesis
    using C7_score [of 0 "new_ScoreManager empty_Storage"]
      C7_score [of 0 "addPoints 5 (addPoints 10 (new_ScoreManager empty_Storage))"] h b
    by simp
qed

text \<open>
  Claim C8. From PLAYING, \<open>pause\<close> sets the state to PAUSED and emits one pause
  event; from every other state it changes nothing. Hence a second \<open>pause\<close> directly
  after the first leaves the engine exactly as the first left it, with no further event.
\<close>

theorem C8_pause:
  "(gameState s = PLAYING \<longrightarrow>
      pause now s = emit (Game_pause now) (s\<lparr>gameState := PAUSED\<rparr>) \<and>
      gameState (pause now s) = PAUSED \<and>
      emitted (pause now s) = emitted s @ [Game_pause now]) \<and>
   (gameState s \<noteq> PLAYING \<longrightarrow> pause now s = s) \<and>
   pause now' (pause now s) = pause now s \<and>
   emitted (pause now' (pause now s)) = emitted (pause now s)"
  by (simp add: pause_def emit_def)

text \<open>
  A playing engine paused twice, and an engine in the menu.
\<close>

theorem C8_pause_witness:
  "gameState (example_engine\<lparr>gameState := PLAYING\<rparr>) = PLAYING \<and>
   gameState (pause 1 (example_engine\<lparr>gameState := PLAYING\<rparr>)) = PAUSED \<and>
   emitted (pause 2 (pause 1 (example_engine\<lparr>gameState := PLAYING\<rparr>))) =
     emitted example_engine @ [Game_pause 1] \<and>
   gameState example_engine \<noteq> PLAYING \<and>
   pause 1 example_engine = example_engine"
proof -
  have m: "gameState example_engine = MENU"
    by (simp add: example_engine_def new_GameEngine_def Let_def)
  show ?thesis
    using C8_pause [of "example_engine\<lparr>gameState := PLAYING\<rparr>" 1 2]
      C8_pause [of example_engine 1 2] m
    by (simp add: pause_def emit_def)
qed

text \<open>
  Claim C10. From every state \<open>stop\<close> sets the state to MENU and leaves the snake
  (segments and both directions), the food (position, type and points), the whole score
  manager (current score, high score, length, food eaten, game time), the configuration,
  the board and the emitted events unchanged; only the animation-frame handle may be
  cleared.
\<close>

theorem C10_stop:
  "gameState (stop s) = MENU \<and>
   snake (stop s) = snake s \<and>
   food (stop s) = food s \<and>
   scoreManager (stop s) = scoreManager s \<and>
   config (stop s) = config s \<and>
   gameBoard (stop s) = gameBoard s \<and>
   emitted (stop s) = emitted s \<and>
   lastUpdateTime (stop s) = lastUpdateTime s \<and>
   getRenderData (stop s) = (getRenderData s)\<lparr>rd_gameState := MENU\<rparr>"
  by (simp add: stop_def cancel_frame_def getRenderData_def split: option.split)

text \<open>
  A paused engine with a pending animation frame.
\<close>

theorem C10_stop_witness:
  "gameState (stop (example_engine\<lparr>gameState := PAUSED, animationFrameId := Some 7\<rparr>)) = MENU \<and>
   snake (stop (example_engine\<lparr>gameState := PAUSED, animationFrameId := Some 7\<rparr>)) = snake example_engine \<and>
   food (stop (example_engine\<lparr>gameState := PAUSED, animationFrameId := Some 7\<rparr>)) = food example_engine \<and>
   scoreManager (stop (example_engine\<lparr>gameState := PAUSED, animationFrameId := Some 7\<rparr>)) =
     scoreManager example_engine"
  using C10_stop [of "example_engine\<lparr>gameState := PAUSED, animationFrameId := Some 7\<rparr>"]
  by simp

subsection \<open>Food: spawning (C2)\<close>


lemma array_get_Some: "array_get xs i = Some p \<Longrightarrow> p \<in> set xs"
  by (auto simp: array_get_def split: if_splits)

lemma free_cell_not_on_snake:
  "p \<in> set (getEmptyPositionsExcludingSnake b (getSegments sn)) \<Longrightarrow>
   \<not> containsPosition sn p \<and> \<not> isOutOfBounds b p"
  by (simp add: set_getEmptyPositionsExcludingSnake containsPosition_iff)

lemma food_position_createRandomFood [simp]:
  "food_position (createRandomFood u cfg p) = p"
  by (simp add: createRandomFood_def new_Food_def Let_def)

lemma spawnNewFood_nonempty:
  "getEmptyPositionsExcludingSnake (gameBoard s) (getSegments (snake s)) \<noteq> [] \<Longrightarrow>
   food_position (food (spawnNewFood env s)) =
     array_get (getEmptyPositionsExcludingSnake (gameBoard s) (getSegments (snake s)))
       (random_index (rand_position env)
          (length (getEmptyPositionsExcludingSnake (gameBoard s) (getSegments (snake s)))))"
  by (simp add: spawnNewFood_def Let_def emit_def)

text \<open>
  Claim C2. \<open>respawn\<close> throws exactly when the list of available positions is empty.
  For a non-empty list and a draw in \<open>[0, 1)\<close> the new position is an element of the
  list; so when no listed position is on the snake, in particular for the list the board
  enumerates for that snake, the new position is on no segment. The engine's
  \<open>spawnNewFood\<close>, which draws from that enumeration, places the food on a free cell
  off the snake in the same way.
\<close>

theorem C2_respawn:
  "(has_thrown (respawn u avail f) \<longleftrightarrow> avail = []) \<and>
   (avail = [] \<longrightarrow> respawn u avail f = Thrown SpawnError f) \<and>
   (valid_random u \<and> avail \<noteq> [] \<longrightarrow>
      (\<exists>p\<in>set avail. respawn u avail f = Returned (f\<lparr>food_position := Some p\<rparr>))) \<and>
   (valid_random u \<and> avail \<noteq> [] \<and> (\<forall>p\<in>set avail. \<not> containsPosition sn p) \<longrightarrow>
      (\<exists>p. food_position (state_of (respawn u avail f)) = Some p \<and> \<not> containsPosition sn p)) \<and>
   (valid_random u \<and> getEmptyPositionsExcludingSnake b (getSegments sn) \<noteq> [] \<longrightarrow>
      (\<exists>p. food_position (state_of (respawn u (getEmptyPositionsExcludingSnake b (getSegments sn)) f))
              = Some p \<and>
           \<not> containsPosition sn p \<and> \<not> isOutOfBounds b p)) \<and>
   (valid_TickEnv env \<and>
    getEmptyPositionsExcludingSnake (gameBoard s) (getSegments (snake s)) \<noteq> [] \<longrightarrow>
      (\<exists>p\<in>set (getEmptyPositionsExcludingSnake (gameBoard s) (getSegments (snake s))).
         food_position (food (spawnNewFood env s)) = Some p \<and>
         \<not> containsPosition (snake s) p))"
proof -
  have a: "has_thrown (respawn u avail f) \<longleftrightarrow> avail = []"
    by (simp add: respawn_def Let_def)
  have b: "avail = [] \<longrightarrow> respawn u avail f = Thrown SpawnError f"
    by (simp add: respawn_def)
  have c: "\<exists>p\<in>set xs. respawn u xs f = Returned (f\<lparr>food_position := Some p\<rparr>)"
    if "valid_random u" and "xs \<noteq> []" for xs
  proof -
    from array_get_random [OF that] obtain p
      where "p \<in> set xs" and "array_get xs (random_index u (length xs)) = Some p"
      by blast
    with that(2) show ?thesis
      by (auto simp: respawn_def Let_def)
  qed
  have d: "valid_random u \<and> avail \<noteq> [] \<and> (\<forall>p\<in>set avail. \<not> containsPosition sn p) \<longrightarrow>
      (\<exists>p. food_position (state_of (respawn u avail f)) = Some p \<and> \<not> containsPosition sn p)"
  proof
    assume h: "valid_random u \<and> avail \<noteq> [] \<and> (\<forall>p\<in>set avail. \<not> containsPosition sn p)"
    then obtain p where "p \<in> set avail" and "respawn u avail f = Returned (f\<lparr>food_position := Some p\<rparr>)"
      using c [of avail] by blast
    with h show "\<exists>p. food_position (state_of (respawn u avail f)) = Some p \<and> \<not> containsPosition sn p"
      by auto
  qed
  have e: "valid_random u \<and> getEmptyPositionsExcludingSnake b (getSegments sn) \<noteq> [] \<longrightarrow>
      (\<exists>p. food_position (state_of (respawn u (getEmptyPositionsExcludingSnake b (getSegments sn)) f))
              = Some p \<and>
           \<not> containsPosition sn p \<and> \<not> isOutOfBounds b p)"
  proof
    assume h: "valid_random u \<and> getEmptyPositionsExcludingSnake b (getSegments sn) \<noteq> []"
    then obtain p where p: "p \<in> set (getEmptyPositionsExcludingSnake b (getSegments sn))"
      and r: "respawn u (getEmptyPositionsExcludingSnake b (getSegments sn)) f =
        Returned (f\<lparr>food_position := Some p\<rparr>)"
      using c [of "getEmptyPositionsExcludingSnake b (getSegments sn)"] by blast
    from free_cell_not_on_snake [OF p] r
    show "\<exists>p. food_position (state_of (respawn u (getEmptyPositionsExcludingSnake b (getSegments sn)) f))
              = Some p \<and> \<not> containsPosition sn p \<and> \<not> isOutOfBounds b p"
      by auto
  qed
  have g: "valid_TickEnv env \<and>
    getEmptyPositionsExcludingSnake (gameBoard s) (getSegments (snake s)) \<noteq> [] \<longrightarrow>
      (\<exists>p\<in>set (getEmptyPositionsExcludingSnake (gameBoard s) (getSegments (snake s))).
         food_position (food (spawnNewFood env s)) = Some p \<and>
         \<not> containsPosition (snake s) p)"
  proof
    assume h: "valid_TickEnv env \<and>
      getEmptyPositionsExcludingSnake (gameBoard s) (getSegments (snake s)) \<noteq> []"
    then have v: "valid_random (rand_position env)"
      by (simp add: valid_TickEnv_def)
    from h have ne: "getEmptyPositionsExcludingSnake (gameBoard s) (getSegments (snake s)) \<noteq> []"
      by simp
    from array_get_random [OF v ne] obtain p
      where p: "p \<in> set (getEmptyPositionsExcludingSnake (gameBoard s) (getSegments (snake s)))"
        and q: "array_get (getEmptyPositionsExcludingSnake (gameBoard s) (getSegments (snake s)))
          (random_index (rand_position env)
            (length (getEmptyPositionsExcludingSnake (gameBoard s) (getSegments (snake s))))) = Some p"
      by blast
    from spawnNewFood_nonempty [OF ne, of env] q
    have "food_position (food (spawnNewFood env s)) = Some p"
      by simp
    with p free_cell_not_on_snake [OF p]
    show "\<exists>p\<in>set (getEmptyPositionsExcludingSnake (gameBoard s) (getSegments (snake s))).
         food_position (food (spawnNewFood env s)) = Some p \<and> \<not> containsPosition (snake s) p"
      by blast
  qed
  from a b c [of avail] d e g show ?thesis
    by blast
qed

lemma free_cells_small:
  "getEmptyPositionsExcludingSnake \<lparr>board_gridSize = 2\<rparr>
     [\<lparr>position = \<lparr>pos_x = 1, pos_y = 1\<rparr>, isHead = True\<rparr>] =
     [\<lparr>pos_x = 0, pos_y = 0\<rparr>, \<lparr>pos_x = 0, pos_y = 1\<rparr>, \<lparr>pos_x = 1, pos_y = 0\<rparr>]"
proof -
  have u: "[0..(1::int)] = [0, 1]"
    by (simp add: upto_rec1)
  show ?thesis
    by (simp add: getEmptyPositionsExcludingSnake_eq column_major_free_cells_def grid_range_def u)
qed

lemma new_Snake_small:
  "new_Snake small_config =
     \<lparr>snake_config = small_config,
      segments = [\<lparr>position = \<lparr>pos_x = 1, pos_y = 1\<rparr>, isHead = True\<rparr>],
      direction = RIGHT, nextDirection = RIGHT\<rparr>"
  by (simp add: new_Snake_def initializeSnake_def initializeSnake_loop.simps small_config_def
      example_config_def)

lemma example_engine_eq:
  "example_engine =
     \<lparr>config = small_config, snake = new_Snake small_config,
      food = \<lparr>food_position = Some \<lparr>pos_x = 0, pos_y = 0\<rparr>, food_type = REGULAR, points = 10\<rparr>,
      gameBoard = \<lparr>board_gridSize = 2\<rparr>, scoreManager = new_ScoreManager empty_Storage,
      emitted = [], gameState = MENU, lastUpdateTime = 0, animationFrameId = None\<rparr>"
proof -
  have g: "gridSize small_config = 2" and c: "specialFoodSpawnChance small_config = 1 / 10"
    by (simp_all add: small_config_def example_config_def)
  show ?thesis
    by (simp add: example_engine_def new_GameEngine_def Let_def createInitialFood_def g c
        new_Snake_small free_cells_small random_index_def array_get_def createRandomFood_def
        new_Food_def)
qed

text \<open>
  The two-element list of the tests, the empty list, and the engine on the 2 by 2 board.
\<close>

theorem C2_respawn_witness:
  "valid_random (1 / 2) \<and>
   respawn (1 / 2) [\<lparr>pos_x = 1, pos_y = 1\<rparr>, \<lparr>pos_x = 2, pos_y = 2\<rparr>] (food example_engine) =
     Returned ((food example_engine)\<lparr>food_position := Some \<lparr>pos_x = 2, pos_y = 2\<rparr>\<rparr>) \<and>
   respawn (1 / 2) [] (food example_engine) = Thrown SpawnError (food example_engine) \<and>
   list_all (\<lambda>p. \<not> containsPosition (new_Snake example_config) p)
     [\<lparr>pos_x = 1, pos_y = 1\<rparr>, \<lparr>pos_x = 2, pos_y = 2\<rparr>] \<and>
   valid_TickEnv example_TickEnv \<and>
   getEmptyPositionsExcludingSnake (gameBoard example_engine) (getSegments (snake example_engine)) \<noteq> [] \<and>
   food_position (food (spawnNewFood example_TickEnv example_engine)) = Some \<lparr>pos_x = 0, pos_y = 0\<rparr> \<and>
   \<not> containsPosition (snake example_engine) \<lparr>pos_x = 0, pos_y = 0\<rparr>"
proof -
  have v: "valid_random (1 / 2)"
    by (simp add: valid_random_def)
  have t: "valid_TickEnv example_TickEnv"
    by (simp add: valid_TickEnv_def example_TickEnv_def valid_random_def)
  have l: "list_all (\<lambda>p. \<not> containsPosition (new_Snake example_config) p)
     [\<lparr>pos_x = 1, pos_y = 1\<rparr>, \<lparr>pos_x = 2, pos_y = 2\<rparr>]"
    by (simp add: new_Snake_example containsPosition_def equals_def)
  have ne: "getEmptyPositionsExcludingSnake (gameBoard example_engine)
      (getSegments (snake example_engine)) \<noteq> []"
    by (simp add: example_engine_eq new_Snake_small free_cells_small)
  have r: "respawn (1 / 2) [\<lparr>pos_x = 1, pos_y = 1\<rparr>, \<lparr>pos_x = 2, pos_y = 2\<rparr>] (food example_engine) =
     Returned ((food example_engine)\<lparr>food_position := Some \<lparr>pos_x = 2, pos_y = 2\<rparr>\<rparr>)"
    by (simp add: respawn_def random_index_def array_get_def)
  have f: "food_position (food (spawnNewFood example_TickEnv example_engine)) =
      Some \<lparr>pos_x = 0, pos_y = 0\<rparr>"
    by (simp add: spawnNewFood_nonempty [OF ne])
      (simp add: example_engine_eq new_Snake_small free_cells_small example_TickEnv_def
        random_index_def array_get_def)
  have n: "\<not> containsPosition (snake example_engine) \<lparr>pos_x = 0, pos_y = 0\<rparr>"
    by (simp add: example_engine_eq new_Snake_small containsPosition_def equals_def)
  show ?thesis
    using C2_respawn [of "1 / 2" "[\<lparr>pos_x = 1, pos_y = 1\<rparr>, \<lparr>pos_x = 2, pos_y = 2\<rparr>]"
        "food example_engine" "new_Snake example_config" "gameBoard example_engine"
        example_TickEnv example_engine]
      C2_respawn [of "1 / 2" "[]" "food example_engine" "new_Snake example_config"
        "gameBoard example_engine" example_TickEnv example_engine]
      v t l ne r f n
    by simp
qed

subsection \<open>What the engine's helpers leave unchanged\<close>

lemma emit_fields [simp]:
  "gameState (emit ev s) = gameState s" "snake (emit ev s) = snake s" "food (emit ev s) = food s"
  "gameBoard (emit ev s) = gameBoard s" "scoreManager (emit ev s) = scoreManager s"
  "config (emit ev s) = config s" "emitted (emit ev s) = emitted s @ [ev]"
  by (simp_all add: emit_def)

lemma cancel_frame_fields [simp]:
  "gameState (cancel_frame s) = gameState s" "snake (cancel_frame s) = snake s"
  "food (cancel_frame s) = food s" "gameBoard (cancel_frame s) = gameBoard s"
  "scoreManager (cancel_frame s) = scoreManager s" "config (cancel_frame s) = config s"
  "emitted (cancel_frame s) = emitted s"
  by (simp_all add: cancel_frame_def split: option.split)

lemma saveHighScore_fields [simp]:
  "currentScore (saveHighScore d sm) = currentScore sm"
  "highScore (saveHighScore d sm) = highScore sm"
  "foodEaten (saveHighScore d sm) = foodEaten sm"
  "snakeLength (saveHighScore d sm) = snakeLength sm"
  "gameTime (saveHighScore d sm) = gameTime sm"
  by (simp_all add: saveHighScore_def saveGameStats_def)

lemma gameOver_fields [simp]:
  "gameState (gameOver d s) = GAME_OVER" "snake (gameOver d s) = snake s"
  "food (gameOver d s) = food s" "gameBoard (gameOver d s) = gameBoard s"
  "config (gameOver d s) = config s"
  "scoreManager (gameOver d s) = saveHighScore d (scoreManager s)"
  "emitted (gameOver d s) = emitted s @ [Game_over (getScore (saveHighScore d (scoreManager s)))]"
  by (simp_all add: gameOver_def Let_def)

lemma updateScore_fields [simp]:
  "gameState (updateScore env s) = gameState s" "snake (updateScore env s) = snake s"
  "food (updateScore env s) = food s" "gameBoard (updateScore env s) = gameBoard s"
  "config (updateScore env s) = config s"
  "currentScore (scoreManager (updateScore env s)) = currentScore (scoreManager s)"
  "highScore (scoreManager (updateScore env s)) = highScore (scoreManager s)"
  "foodEaten (scoreManager (updateScore env s)) = foodEaten (scoreManager s)"
  by (simp_all add: updateScore_def Let_def updateTimer_def updateSnakeLength_def)

lemma emitted_updateScore:
  "\<exists>sd. emitted (updateScore env s) = emitted s @ [Score_update sd]"
  by (simp add: updateScore_def Let_def)

lemma spawnNewFood_fields [simp]:
  "snake (spawnNewFood env s) = snake s" "gameBoard (spawnNewFood env s) = gameBoard s"
  "config (spawnNewFood env s) = config s"
  by (simp_all add: spawnNewFood_def Let_def)

lemma gameState_spawnNewFood:
  "gameState (spawnNewFood env s) = GAME_OVER \<or> gameState (spawnNewFood env s) = gameState s"
  by (simp add: spawnNewFood_def Let_def)

subsection \<open>The food stays off the snake\<close>

lemma food_clearI:
  "(\<And>p. food_position (food s) = Some p \<Longrightarrow>
      \<not> isOutOfBounds (gameBoard s) p \<and> \<not> containsPosition (snake s) p) \<Longrightarrow> food_clear s"
  by (simp add: food_clear_def split: option.split)

lemma food_clearD:
  "food_clear s \<Longrightarrow> food_position (food s) = Some p \<Longrightarrow>
   \<not> isOutOfBounds (gameBoard s) p \<and> \<not> containsPosition (snake s) p"
  by (simp add: food_clear_def)

lemma food_clear_cong:
  "food s' = food s \<Longrightarrow> gameBoard s' = gameBoard s \<Longrightarrow>
   segments (snake s') = segments (snake s) \<Longrightarrow> food_clear s' = food_clear s"
  by (simp add: food_clear_def containsPosition_iff split: option.split)

lemma food_clear_createInitialFood:
  "food_clear (s\<lparr>food := createInitialFood u1 u2 cfg (gameBoard s) (snake s)\<rparr>)"
proof (rule food_clearI)
  fix p
  assume "food_position (food (s\<lparr>food := createInitialFood u1 u2 cfg (gameBoard s) (snake s)\<rparr>)) = Some p"
  then have "array_get (getEmptyPositionsExcludingSnake (gameBoard s) (getSegments (snake s)))
      (random_index u1 (length (getEmptyPositionsExcludingSnake (gameBoard s) (getSegments (snake s)))))
      = Some p"
    by (simp add: createInitialFood_def Let_def)
  then have "p \<in> set (getEmptyPositionsExcludingSnake (gameBoard s) (getSegments (snake s)))"
    by (rule array_get_Some)
  then show "\<not> isOutOfBounds (gameBoard (s\<lparr>food := createInitialFood u1 u2 cfg (gameBoard s) (snake s)\<rparr>)) p \<and>
      \<not> containsPosition (snake (s\<lparr>food := createInitialFood u1 u2 cfg (gameBoard s) (snake s)\<rparr>)) p"
    using free_cell_not_on_snake by simp
qed

lemma food_clear_spawnNewFood:
  "gameState (spawnNewFood env s) = GAME_OVER \<or> food_clear (spawnNewFood env s)"
proof (cases "getEmptyPositionsExcludingSnake (gameBoard s) (getSegments (snake s)) = []")
  case True
  then show ?thesis
    by (simp add: spawnNewFood_def)
next
  case False
  have "food_clear (spawnNewFood env s)"
  proof (rule food_clearI)
    fix p
    assume "food_position (food (spawnNewFood env s)) = Some p"
    with spawnNewFood_nonempty [OF False, of env]
    have "p \<in> set (getEmptyPositionsExcludingSnake (gameBoard s) (getSegments (snake s)))"
      by (simp add: array_get_Some)
    then show "\<not> isOutOfBounds (gameBoard (spawnNewFood env s)) p \<and>
        \<not> containsPosition (snake (spawnNewFood env s)) p"
      using free_cell_not_on_snake by simp
  qed
  then show ?thesis ..
qed

lemma move_Returned:
  "move s = Returned sn \<Longrightarrow>
   \<exists>h rest. segments s = h # rest \<and>
     map position (segments sn) =
       calculateNewHeadPosition (nextDirection s) (position h) # map position (butlast (h # rest)) \<and>
     getHeadPosition sn = Some (calculateNewHeadPosition (nextDirection s) (position h))"
proof (cases "segments s")
  case Nil
  assume "move s = Returned sn"
  with Nil show ?thesis by (simp add: move_empty)
next
  case (Cons h rest)
  assume m: "move s = Returned sn"
  from move_positions [OF Cons] m
  have p: "map position (segments sn) =
       calculateNewHeadPosition (nextDirection s) (position h) # map position (butlast (h # rest))"
    by simp
  have "getHeadPosition sn = Some (calculateNewHeadPosition (nextDirection s) (position h))"
  proof (cases "segments sn")
    case Nil
    with p show ?thesis by simp
  next
    case c: (Cons h' rest')
    with p show ?thesis by (simp add: getHeadPosition_def)
  qed
  with Cons p show ?thesis by metis
qed

lemma hasSelfCollision_iff:
  "segments sn = h # rest \<Longrightarrow> hasSelfCollision sn \<longleftrightarrow> position h \<in> set (map position rest)"
proof -
  assume sn: "segments sn = h # rest"
  have "hasSelfCollision sn \<longleftrightarrow> (\<exists>seg\<in>set rest. position seg = position h)"
    by (simp add: hasSelfCollision_def sn list_ex_iff equals_iff)
  also have "\<dots> \<longleftrightarrow> position h \<in> position ` set rest"
  proof
    assume "\<exists>seg\<in>set rest. position seg = position h"
    then obtain seg where m: "seg \<in> set rest" and e: "position seg = position h"
      by (rule bexE)
    from e have "position h = position seg" by (rule sym)
    then show "position h \<in> position ` set rest"
      using m by (rule image_eqI)
  next
    assume "position h \<in> position ` set rest"
    then obtain seg where e: "position h = position seg" and m: "seg \<in> set rest"
      by (rule imageE)
    from e have "position seg = position h" by (rule sym)
    with m show "\<exists>seg\<in>set rest. position seg = position h"
      by (rule bexI [rotated])
  qed
  finally show ?thesis by simp
qed

lemma move_positions_subset:
  "move s = Returned sn \<Longrightarrow> getHeadPosition sn = Some hp \<Longrightarrow>
   position ` set (segments sn) \<subseteq> insert hp (position ` set (segments s))"
proof -
  assume m: "move s = Returned sn" and g: "getHeadPosition sn = Some hp"
  from move_Returned [OF m] g obtain h rest where hr: "segments s = h # rest"
    and p: "map position (segments sn) = hp # map position (butlast (h # rest))"
    by auto
  have "set (butlast (h # rest)) \<subseteq> set (h # rest)"
    by (meson in_set_butlastD subsetI)
  then have "position ` set (butlast (h # rest)) \<subseteq> position ` set (h # rest)"
    by (rule image_mono)
  then have "insert hp (position ` set (butlast (h # rest))) \<subseteq> insert hp (position ` set (h # rest))"
    by (rule insert_mono)
  then have "set (map position (segments sn)) \<subseteq> insert hp (position ` set (h # rest))"
    by (simp only: p list.set set_map)
  then show ?thesis
    by (simp add: hr)
qed

lemma collided_head_not_food:
  assumes fc: "food_clear s" and m: "move (snake s) = Returned sn"
    and c: "collided (gameBoard s) sn" and f: "food_position (food s) = Some fp"
    and g: "getHeadPosition sn = Some hp"
  shows "\<not> equals hp fp"
proof
  assume "equals hp fp"
  then have e: "hp = fp" by (simp add: equals_iff)
  from food_clearD [OF fc f] have inb: "\<not> isOutOfBounds (gameBoard s) fp"
    and off: "\<not> containsPosition (snake s) fp"
    by simp_all
  from c g inb e have self: "hasSelfCollision sn"
    by (simp add: collided_def)
  from move_Returned [OF m] g obtain h rest where hr: "segments (snake s) = h # rest"
    and p: "map position (segments sn) = hp # map position (butlast (h # rest))"
    by auto
  obtain h' rest' where sn: "segments sn = h' # rest'" and hp: "position h' = hp"
    and r: "map position rest' = map position (butlast (h # rest))"
  proof (cases "segments sn")
    case Nil
    with p show ?thesis by simp
  next
    case c: (Cons h' rest')
    with p that show ?thesis by simp
  qed
  from self have "hp \<in> set (map position rest')"
    by (simp add: hasSelfCollision_iff [OF sn] hp)
  then have "hp \<in> set (map position (butlast (h # rest)))"
    by (simp only: r)
  moreover have "set (butlast (h # rest)) \<subseteq> set (h # rest)"
    by (meson in_set_butlastD subsetI)
  ultimately have "hp \<in> position ` set (h # rest)"
    by auto
  with off e hr show False
    by (simp add: containsPosition_iff)
qed

subsection \<open>The invariant of a running game\<close>


lemma engine_inv_cong:
  "gameState s' = gameState s \<Longrightarrow> food s' = food s \<Longrightarrow> gameBoard s' = gameBoard s \<Longrightarrow>
   segments (snake s') = segments (snake s) \<Longrightarrow> engine_inv s' = engine_inv s"
  using food_clear_cong [of s' s] by (simp add: engine_inv_def)

lemma engine_inv_emit [simp]: "engine_inv (emit ev s) = engine_inv s"
  by (rule engine_inv_cong) simp_all

lemma engine_inv_updateScore [simp]: "engine_inv (updateScore env s) = engine_inv s"
  by (rule engine_inv_cong) simp_all

lemma engine_inv_GAME_OVER: "gameState s = GAME_OVER \<Longrightarrow> engine_inv s"
  by (simp add: engine_inv_def)

lemma engine_inv_MENU: "gameState s = MENU \<Longrightarrow> engine_inv s"
  by (simp add: engine_inv_def)

lemma engine_inv_food_clear: "food_clear s \<Longrightarrow> engine_inv s"
  by (simp add: engine_inv_def)

lemma getHeadPosition_Some:
  "getHeadPosition sn = Some hp \<Longrightarrow> \<exists>h rest. segments sn = h # rest \<and> position h = hp"
  by (cases "segments sn") (simp_all add: getHeadPosition_def)

lemma checkFoodConsumption_inv:
  assumes "gameState s = GAME_OVER \<or>
    (\<forall>fp. food_position (food s) = Some fp \<longrightarrow>
       \<not> isOutOfBounds (gameBoard s) fp \<and> fp \<notin> position ` set (tl (segments (snake s))))"
  shows "engine_inv (state_of (checkFoodConsumption env s))"
proof (cases "getHeadPosition (snake s)")
  case None
  then have e: "segments (snake s) = []"
    by (cases "segments (snake s)") (simp_all add: getHeadPosition_def)
  from None have "state_of (checkFoodConsumption env s) = s"
    by (simp add: checkFoodConsumption_def)
  moreover from assms e have "engine_inv s"
    by (auto simp: engine_inv_def food_clear_def containsPosition_iff split: option.split)
  ultimately show ?thesis by simp
next
  case (Some hp)
  then obtain h rest where hr: "segments (snake s) = h # rest" and hp: "position h = hp"
    using getHeadPosition_Some by blast
  show ?thesis
  proof (cases "food_position (food s)")
    case None
    with Some have "state_of (checkFoodConsumption env s) = s"
      by (simp add: checkFoodConsumption_def getPosition_def)
    moreover from None have "engine_inv s"
      by (simp add: engine_inv_def food_clear_def)
    ultimately show ?thesis by simp
  next
    case fp: (Some fp)
    show ?thesis
    proof (cases "equals hp fp")
      case False
      with Some fp have st: "state_of (checkFoodConsumption env s) = s"
        by (simp add: checkFoodConsumption_def getPosition_def)
      from False have "hp \<noteq> fp"
        by (simp add: equals_iff)
      with assms fp hr hp have "engine_inv s"
        by (auto simp: engine_inv_def food_clear_def containsPosition_iff)
      with st show ?thesis by simp
    next
      case True
      have ne: "segments (snake s) \<noteq> []"
        by (simp add: hr)
      define s5 where "s5 = emit (Food_eaten (food s)
          (getCurrentScore (updateSnakeLength (getLength (state_of (grow (snake s))))
             (incrementFoodEaten (addPoints (getPoints (food s)) (scoreManager s))))))
        (s\<lparr>snake := state_of (grow (snake s)),
           scoreManager := updateSnakeLength (getLength (state_of (grow (snake s))))
             (incrementFoodEaten (addPoints (getPoints (food s)) (scoreManager s)))\<rparr>)"
      from True Some fp have st: "state_of (checkFoodConsumption env s) = spawnNewFood env s5"
        by (simp add: checkFoodConsumption_def getPosition_def grow_nonempty [OF ne] Let_def s5_def)
      have g5: "gameState s5 = gameState s"
        by (simp add: s5_def)
      from food_clear_spawnNewFood [of env s5] show ?thesis
      proof
        assume "gameState (spawnNewFood env s5) = GAME_OVER"
        then show ?thesis
          by (simp add: st engine_inv_GAME_OVER)
      next
        assume "food_clear (spawnNewFood env s5)"
        then show ?thesis
          by (simp add: st engine_inv_food_clear)
      qed
    qed
  qed
qed

lemma bind_outcome_cases:
  "state_of (bind_outcome r f) = (case r of Returned t \<Rightarrow> state_of (f t) | Thrown e t \<Rightarrow> t)"
  by (cases r) simp_all

lemma update_after_move:
  "gameState s = PLAYING \<Longrightarrow> move (snake s) = Returned sn \<Longrightarrow> getHeadPosition sn = Some hp \<Longrightarrow>
   update env s =
     bind_outcome
       (checkFoodConsumption env
          (if collided (gameBoard s) sn then gameOver (date_now env) (s\<lparr>snake := sn\<rparr>)
           else s\<lparr>snake := sn\<rparr>))
       (\<lambda>this2. case getHeadPosition (snake (updateScore env this2)) of
                   None \<Rightarrow> Thrown TypeError (updateScore env this2)
                 | Some headPosition \<Rightarrow>
                     Returned (emit (Snake_move headPosition) (updateScore env this2)))"
  by (simp add: update_def checkCollisions_def collided_def Let_def)

lemma engine_inv_after_tick:
  "engine_inv t \<Longrightarrow>
   engine_inv (state_of (case getHeadPosition (snake (updateScore env t)) of
                   None \<Rightarrow> Thrown TypeError (updateScore env t)
                 | Some headPosition \<Rightarrow>
                     Returned (emit (Snake_move headPosition) (updateScore env t))))"
  by (simp split: option.split)

lemma update_inv: "engine_inv s \<Longrightarrow> engine_inv (state_of (update env s))"
proof (cases "gameState s = PLAYING")
  case False
  assume "engine_inv s"
  with False show ?thesis by (simp add: update_def)
next
  case True
  assume inv: "engine_inv s"
  with True have fc: "food_clear s"
    by (simp add: engine_inv_def)
  show ?thesis
  proof (cases "move (snake s)")
    case (Thrown e sn)
    then have "segments (snake s) = []"
      by (cases "segments (snake s)") (simp_all add: move_nonempty)
    with Thrown have sg: "segments sn = segments (snake s)"
      by (auto simp: move_empty)
    from True Thrown have "state_of (update env s) = s\<lparr>snake := sn\<rparr>"
      by (simp add: update_def)
    moreover have "engine_inv (s\<lparr>snake := sn\<rparr>) = engine_inv s"
      by (rule engine_inv_cong) (simp_all add: sg)
    ultimately show ?thesis using inv by simp
  next
    case (Returned sn)
    from move_Returned [OF Returned] obtain h rest hp where hr: "segments (snake s) = h # rest"
      and p: "map position (segments sn) = hp # map position (butlast (h # rest))"
      and g: "getHeadPosition sn = Some hp"
      by metis
    define s1 where "s1 = (if collided (gameBoard s) sn then gameOver (date_now env) (s\<lparr>snake := sn\<rparr>)
           else s\<lparr>snake := sn\<rparr>)"
    have pre: "gameState s1 = GAME_OVER \<or>
      (\<forall>fp. food_position (food s1) = Some fp \<longrightarrow>
         \<not> isOutOfBounds (gameBoard s1) fp \<and> fp \<notin> position ` set (tl (segments (snake s1))))"
    proof (cases "collided (gameBoard s) sn")
      case True
      then show ?thesis by (simp add: s1_def)
    next
      case False
      have "map position (tl (segments sn)) = tl (map position (segments sn))"
        by (rule map_tl)
      also have "\<dots> = map position (butlast (h # rest))"
        by (simp only: p list.sel)
      finally have "set (map position (tl (segments sn))) = set (map position (butlast (h # rest)))"
        by (rule arg_cong)
      then have "position ` set (tl (segments sn)) = position ` set (butlast (h # rest))"
        by (simp only: set_map)
      moreover have "set (butlast (h # rest)) \<subseteq> set (h # rest)"
        by (meson in_set_butlastD subsetI)
      ultimately have sub: "position ` set (tl (segments sn)) \<subseteq> position ` set (segments (snake s))"
        unfolding hr by auto
      have "\<forall>fp. food_position (food s) = Some fp \<longrightarrow>
         \<not> isOutOfBounds (gameBoard s) fp \<and> fp \<notin> position ` set (tl (segments sn))"
      proof (intro allI impI)
        fix fp
        assume "food_position (food s) = Some fp"
        from food_clearD [OF fc this] sub
        show "\<not> isOutOfBounds (gameBoard s) fp \<and> fp \<notin> position ` set (tl (segments sn))"
          by (auto simp: containsPosition_iff)
      qed
      with False show ?thesis by (simp add: s1_def)
    qed
    have "engine_inv (state_of (checkFoodConsumption env s1))"
      using pre by (rule checkFoodConsumption_inv)
    then have "engine_inv (state_of (update env s))"
      unfolding update_after_move [OF True Returned g] s1_def [symmetric] bind_outcome_cases
      by (cases "checkFoodConsumption env s1") (simp_all split: option.split)
    then show ?thesis .
  qed
qed

lemma gameLoop_inv: "engine_inv s \<Longrightarrow> engine_inv (state_of (gameLoop env s))"
proof -
  assume inv: "engine_inv s"
  have a: "engine_inv (t\<lparr>animationFrameId := x\<rparr>) = engine_inv t" for t x
    by (rule engine_inv_cong) simp_all
  have b: "engine_inv (t\<lparr>lastUpdateTime := y\<rparr>) = engine_inv t" for t y
    by (rule engine_inv_cong) simp_all
  from update_inv [OF inv, of "loop_tick env"] inv show ?thesis
    by (cases "update (loop_tick env) s") (simp_all add: gameLoop_def Let_def a b)
qed

lemma food_clear_reset: "food_clear (reset env s)"
proof -
  define s2 where "s2 = s\<lparr>snake := snake_reset (snake s), scoreManager := resetScore (scoreManager s)\<rparr>"
  have f: "food_clear (s2\<lparr>food := createInitialFood (reset_rand_position env) (reset_rand_type env)
      (config s2) (gameBoard s2) (snake s2)\<rparr>)"
    by (rule food_clear_createInitialFood)
  have "food_clear (reset env s) =
      food_clear (s2\<lparr>food := createInitialFood (reset_rand_position env) (reset_rand_type env)
        (config s2) (gameBoard s2) (snake s2)\<rparr>)"
    by (rule food_clear_cong) (simp_all add: reset_def Let_def s2_def)
  with f show ?thesis by simp
qed

lemma gameState_reset [simp]: "gameState (reset env s) = MENU"
  by (simp add: reset_def Let_def)

lemma start_inv: "engine_inv s \<Longrightarrow> engine_inv (state_of (start env s))"
proof (cases "gameState s \<noteq> MENU \<and> gameState s \<noteq> GAME_OVER")
  case True
  assume "engine_inv s"
  with True show ?thesis by (simp add: start_def)
next
  case False
  define s4 where "s4 = (reset (start_reset env) s)
      \<lparr>gameState := PLAYING, lastUpdateTime := start_now env,
        scoreManager := startGameTimer (start_timer_now env) (scoreManager (reset (start_reset env) s))\<rparr>"
  have "food_clear s4 = food_clear (reset (start_reset env) s)"
    by (rule food_clear_cong) (simp_all add: s4_def)
  then have "engine_inv s4"
    by (simp add: food_clear_reset engine_inv_food_clear)
  then have "engine_inv (state_of (gameLoop (start_loop env) s4))"
    by (rule gameLoop_inv)
  moreover from False have "start env s =
      bind_outcome (gameLoop (start_loop env) s4) (\<lambda>this5. Returned (emit (Game_start (config this5)) this5))"
    by (auto simp: start_def Let_def s4_def)
  ultimately show ?thesis
    by (cases "gameLoop (start_loop env) s4") simp_all
qed

lemma pause_inv: "engine_inv s \<Longrightarrow> engine_inv (pause now s)"
proof (cases "gameState s = PLAYING")
  case False
  assume "engine_inv s"
  with False show ?thesis by (simp add: pause_def)
next
  case True
  assume "engine_inv s"
  with True have fc: "food_clear s"
    by (simp add: engine_inv_def)
  have "food_clear (s\<lparr>gameState := PAUSED\<rparr>) = food_clear s"
    by (rule food_clear_cong) simp_all
  with fc have "engine_inv (s\<lparr>gameState := PAUSED\<rparr>)"
    by (simp add: engine_inv_food_clear)
  with True show ?thesis
    by (simp add: pause_def)
qed

lemma resume_inv: "engine_inv s \<Longrightarrow> engine_inv (state_of (resume env s))"
proof (cases "gameState s = PAUSED")
  case False
  assume "engine_inv s"
  with False show ?thesis by (simp add: resume_def)
next
  case True
  assume inv: "engine_inv s"
  define s2 where "s2 = s\<lparr>gameState := PLAYING, lastUpdateTime := resume_now env\<rparr>"
  have "food_clear s2 = food_clear s"
    by (rule food_clear_cong) (simp_all add: s2_def)
  with inv True have "engine_inv s2"
    by (simp add: engine_inv_def)
  then have "engine_inv (state_of (gameLoop (resume_loop env) s2))"
    by (rule gameLoop_inv)
  moreover from True have "resume env s =
      bind_outcome (gameLoop (resume_loop env) s2)
        (\<lambda>this3. Returned (emit (Game_resume (resume_event_now env)) this3))"
    by (simp add: resume_def Let_def s2_def)
  ultimately show ?thesis
    by (cases "gameLoop (resume_loop env) s2") simp_all
qed

lemma togglePause_inv: "engine_inv s \<Longrightarrow> engine_inv (state_of (togglePause now env s))"
  by (simp add: togglePause_def pause_inv resume_inv)

lemma stop_inv: "engine_inv (stop s)"
  by (rule engine_inv_MENU) (simp add: stop_def)

lemma reset_inv: "engine_inv (reset env s)"
  by (rule engine_inv_MENU) simp

lemma engine_changeDirection_inv: "engine_inv s \<Longrightarrow> engine_inv (engine_changeDirection d s)"
proof -
  assume inv: "engine_inv s"
  have "engine_inv (s\<lparr>snake := changeDirection d (snake s)\<rparr>) = engine_inv s"
    by (rule engine_inv_cong) (simp_all add: changeDirection_def)
  with inv show ?thesis
    by (simp add: engine_changeDirection_def)
qed

lemma new_GameEngine_inv: "engine_inv (new_GameEngine cfg sm u1 u2)"
  by (rule engine_inv_MENU) (simp add: new_GameEngine_def Let_def)

text \<open>
  While a game is running (PLAYING or PAUSED) the food, when it has a position, is on the
  board and on no segment of the snake. The engine's snake, food and board are changed by
  the engine's own methods only.
\<close>

lemma reachable_inv: "reachable s \<Longrightarrow> engine_inv s"
proof (induction rule: reachable.induct)
  case (reach_new u_position u_type cfg sm)
  show ?case by (rule new_GameEngine_inv)
next
  case (reach_start s env)
  then show ?case by (simp add: start_inv)
next
  case (reach_pause s now)
  then show ?case by (simp add: pause_inv)
next
  case (reach_resume s env)
  then show ?case by (simp add: resume_inv)
next
  case (reach_togglePause s env now)
  then show ?case by (simp add: togglePause_inv)
next
  case (reach_stop s)
  show ?case by (rule stop_inv)
next
  case (reach_reset s env)
  show ?case by (rule reset_inv)
next
  case (reach_update s env)
  then show ?case by (simp add: update_inv)
next
  case (reach_changeDirection s d)
  then show ?case by (simp add: engine_changeDirection_inv)
next
  case (reach_gameLoop s env)
  then show ?case by (simp add: gameLoop_inv)
qed

subsection \<open>The collision tick (C1)\<close>


lemma update_collided:
  assumes fc: "food_clear s" and pl: "gameState s = PLAYING"
    and m: "move (snake s) = Returned sn" and c: "collided (gameBoard s) sn"
  shows "\<exists>hp. getHeadPosition sn = Some hp \<and>
    update env s =
      (case food_position (food s) of
         None \<Rightarrow> Thrown TypeError (gameOver (date_now env) (s\<lparr>snake := sn\<rparr>))
       | Some fp \<Rightarrow>
           Returned (emit (Snake_move hp)
             (updateScore env (gameOver (date_now env) (s\<lparr>snake := sn\<rparr>)))))"
proof -
  from move_Returned [OF m] obtain hp where g: "getHeadPosition sn = Some hp"
    by metis
  have "update env s =
      (case food_position (food s) of
         None \<Rightarrow> Thrown TypeError (gameOver (date_now env) (s\<lparr>snake := sn\<rparr>))
       | Some fp \<Rightarrow>
           Returned (emit (Snake_move hp)
             (updateScore env (gameOver (date_now env) (s\<lparr>snake := sn\<rparr>)))))"
  proof (cases "food_position (food s)")
    case None
    with g c show ?thesis
      by (simp add: update_after_move [OF pl m g] checkFoodConsumption_def getPosition_def)
  next
    case (Some fp)
    from collided_head_not_food [OF fc m c Some g] have "\<not> equals hp fp" .
    with g c Some show ?thesis
      by (simp add: update_after_move [OF pl m g] checkFoodConsumption_def getPosition_def)
  qed
  with g show ?thesis by metis
qed

text \<open>
  Claim C1. In every state the engine can be in while PLAYING, a tick whose move runs
  the snake into a wall or into itself ends in GAME_OVER, and none of the food processing
  happens on that tick: the snake is the moved snake (no growth), the food is unchanged
  (no respawn), current score, high score and food counter are unchanged, and the events
  emitted by the tick start with the game-over event and contain no food event.
  \<open>update\<close> does call \<open>checkFoodConsumption\<close> after the collision check; it finds
  no overlap because the food is never on the snake nor off the board
  (\<open>reachable_inv\<close>).
\<close>

theorem C1_collision_tick:
  assumes "reachable s" and "gameState s = PLAYING"
    and "move (snake s) = Returned sn" and "collided (gameBoard s) sn"
  shows "gameState (state_of (update env s)) = GAME_OVER \<and>
    snake (state_of (update env s)) = sn \<and>
    food (state_of (update env s)) = food s \<and>
    currentScore (scoreManager (state_of (update env s))) = currentScore (scoreManager s) \<and>
    highScore (scoreManager (state_of (update env s))) = highScore (scoreManager s) \<and>
    foodEaten (scoreManager (state_of (update env s))) = foodEaten (scoreManager s) \<and>
    take (length (emitted s)) (emitted (state_of (update env s))) = emitted s \<and>
    list_all (\<lambda>ev. \<not> is_food_event ev)
      (drop (length (emitted s)) (emitted (state_of (update env s)))) \<and>
    (\<exists>sd. hd (drop (length (emitted s)) (emitted (state_of (update env s)))) = Game_over sd)"
proof -
  from assms(1,2) have fc: "food_clear s"
    using reachable_inv [of s] by (simp add: engine_inv_def)
  from update_collided [OF fc assms(2,3,4), of env] obtain hp where
    u: "update env s =
      (case food_position (food s) of
         None \<Rightarrow> Thrown TypeError (gameOver (date_now env) (s\<lparr>snake := sn\<rparr>))
       | Some fp \<Rightarrow>
           Returned (emit (Snake_move hp)
             (updateScore env (gameOver (date_now env) (s\<lparr>snake := sn\<rparr>)))))"
    by metis
  show ?thesis
  proof (cases "food_position (food s)")
    case None
    then show ?thesis
      by (simp add: u)
  next
    case (Some fp)
    obtain sd where e: "emitted (updateScore env (gameOver (date_now env) (s\<lparr>snake := sn\<rparr>))) =
        emitted (gameOver (date_now env) (s\<lparr>snake := sn\<rparr>)) @ [Score_update sd]"
      using emitted_updateScore by metis
    from Some show ?thesis
      by (simp add: u e)
  qed
qed

lemma snake_reset_new_Snake: "snake_reset (new_Snake cfg) = new_Snake cfg"
  by (simp add: snake_reset_def new_Snake_def initializeSnake_def Let_def)

lemma example_playing_fields:
  "gameState example_playing = PLAYING"
  "snake example_playing = new_Snake small_config"
  "gameBoard example_playing = \<lparr>board_gridSize = 2\<rparr>"
proof -
  have g: "gameSpeed small_config = 100"
    by (simp add: small_config_def example_config_def)
  have r: "snake_reset (new_Snake small_config) = new_Snake small_config"
    by (rule snake_reset_new_Snake)
  have "gameState example_playing = PLAYING \<and> snake example_playing = new_Snake small_config \<and>
      gameBoard example_playing = \<lparr>board_gridSize = 2\<rparr>"
    by (simp add: example_playing_def start_def example_engine_eq reset_def gameLoop_def Let_def
        example_StartEnv_def g r)
  then show "gameState example_playing = PLAYING" "snake example_playing = new_Snake small_config"
    "gameBoard example_playing = \<lparr>board_gridSize = 2\<rparr>"
    by simp_all
qed

lemma reachable_example_playing: "reachable example_playing"
proof -
  have v: "valid_random 0" "valid_random (1 / 2)"
    by (simp_all add: valid_random_def)
  then have "reachable example_engine"
    unfolding example_engine_def by (rule reach_new)
  moreover have "valid_StartEnv example_StartEnv"
    by (simp add: valid_StartEnv_def valid_ResetEnv_def valid_TickEnv_def example_StartEnv_def
        example_TickEnv_def valid_random_def)
  ultimately show ?thesis
    unfolding example_playing_def by (rule reach_start)
qed

text \<open>
  The 2 by 2 board with a one-segment snake at (1,1) heading right: after \<open>start\<close> the
  first tick moves the head to (2,1), off the board.
\<close>

theorem C1_collision_tick_witness:
  "reachable example_playing \<and>
   gameState example_playing = PLAYING \<and>
   move (snake example_playing) =
     Returned (snake example_playing
       \<lparr>segments := [\<lparr>position = \<lparr>pos_x = 2, pos_y = 1\<rparr>, isHead = True\<rparr>]\<rparr>) \<and>
   collided (gameBoard example_playing)
     (snake example_playing\<lparr>segments := [\<lparr>position = \<lparr>pos_x = 2, pos_y = 1\<rparr>, isHead = True\<rparr>]\<rparr>) \<and>
   gameState (state_of (update example_TickEnv example_playing)) = GAME_OVER \<and>
   food (state_of (update example_TickEnv example_playing)) = food example_playing \<and>
   foodEaten (scoreManager (state_of (update example_TickEnv example_playing))) =
     foodEaten (scoreManager example_playing)"
proof -
  have m: "move (snake example_playing) =
     Returned (snake example_playing
       \<lparr>segments := [\<lparr>position = \<lparr>pos_x = 2, pos_y = 1\<rparr>, isHead = True\<rparr>]\<rparr>)"
    by (simp add: example_playing_fields new_Snake_small move_def)
  have c: "collided (gameBoard example_playing)
     (snake example_playing\<lparr>segments := [\<lparr>position = \<lparr>pos_x = 2, pos_y = 1\<rparr>, isHead = True\<rparr>]\<rparr>)"
    by (simp add: example_playing_fields collided_def getHeadPosition_def isOutOfBounds_def)
  show ?thesis
    using C1_collision_tick [OF reachable_example_playing example_playing_fields(1) m c,
        of example_TickEnv]
      reachable_example_playing example_playing_fields(1) m c
    by simp
qed

text \<open>
  The other branch, for comparison: a tick without collision whose head lands on the food
  grows the snake, awards the food's points and counts the food.
\<close>

lemma update_eats_food:
  assumes pl: "gameState s = PLAYING" and m: "move (snake s) = Returned sn"
    and nc: "\<not> collided (gameBoard s) sn"
    and g: "getHeadPosition sn = Some hp" and f: "food_position (food s) = Some hp"
  shows "\<not> has_thrown (update env s) \<and>
    foodEaten (scoreManager (state_of (update env s))) = foodEaten (scoreManager s) + 1 \<and>
    currentScore (scoreManager (state_of (update env s))) =
      currentScore (scoreManager s) + points (food s) \<and>
    length (segments (snake (state_of (update env s)))) = length (segments sn) + 1"
proof -
  from g obtain h rest where hr: "segments sn = h # rest"
    using getHeadPosition_Some by metis
  then have ne: "segments sn \<noteq> []" by simp
  have e: "equals hp hp" by (simp add: equals_iff)
  have sp: "currentScore (scoreManager (spawnNewFood env t)) = currentScore (scoreManager t) \<and>
      foodEaten (scoreManager (spawnNewFood env t)) = foodEaten (scoreManager t)" for t
    by (simp add: spawnNewFood_def Let_def)
  have gh: "getHeadPosition (sn\<lparr>segments := segments sn @ [x]\<rparr>) = Some hp" for x
    using g by (simp add: getHeadPosition_def hr)
  show ?thesis
    using nc g f e
    by (simp add: update_after_move [OF pl m g] checkFoodConsumption_def getPosition_def
        grow_nonempty [OF ne] Let_def sp gh getPoints_def addPoints_def updateHighScore_def
        incrementFoodEaten_def updateSnakeLength_def)
qed

end
